theory Spec2Isabelle
  imports Complex_Main
begin

section \<open>Strings, numbers and thrown values\<close>

text \<open>
  The package is TypeScript. A JavaScript string is a sequence of UTF-16 code units.
  It is modelled as the list of its code units (\<open>ustring\<close>); every Hebrew letter, the
  geresh (U+05F3) and the gershayim (U+05F4) are one code unit each. An ASCII literal of
  the source is written \<open>ascii ''...''\<close>. Numbers that the code uses as integers (days,
  months, years) are \<open>int\<close>; fractional arguments are outside the model.
\<close>

type_synonym ustring = "nat list"

definition ascii :: "string \<Rightarrow> ustring" where
  "ascii s = map of_char s"

abbreviation ALEF :: nat where "ALEF \<equiv> 0x5D0"
abbreviation BET :: nat where "BET \<equiv> 0x5D1"
abbreviation GIMEL :: nat where "GIMEL \<equiv> 0x5D2"
abbreviation DALET :: nat where "DALET \<equiv> 0x5D3"
abbreviation HE :: nat where "HE \<equiv> 0x5D4"
abbreviation VAV :: nat where "VAV \<equiv> 0x5D5"
abbreviation ZAYIN :: nat where "ZAYIN \<equiv> 0x5D6"
abbreviation HET :: nat where "HET \<equiv> 0x5D7"
abbreviation TET :: nat where "TET \<equiv> 0x5D8"
abbreviation YOD :: nat where "YOD \<equiv> 0x5D9"
abbreviation FINAL_KAF :: nat where "FINAL_KAF \<equiv> 0x5DA"
abbreviation KAF :: nat where "KAF \<equiv> 0x5DB"
abbreviation LAMED :: nat where "LAMED \<equiv> 0x5DC"
abbreviation FINAL_MEM :: nat where "FINAL_MEM \<equiv> 0x5DD"
abbreviation MEM :: nat where "MEM \<equiv> 0x5DE"
abbreviation FINAL_NUN :: nat where "FINAL_NUN \<equiv> 0x5DF"
abbreviation NUN :: nat where "NUN \<equiv> 0x5E0"
abbreviation SAMEKH :: nat where "SAMEKH \<equiv> 0x5E1"
abbreviation AYIN :: nat where "AYIN \<equiv> 0x5E2"
abbreviation FINAL_PE :: nat where "FINAL_PE \<equiv> 0x5E3"
abbreviation PE :: nat where "PE \<equiv> 0x5E4"
abbreviation FINAL_TSADI :: nat where "FINAL_TSADI \<equiv> 0x5E5"
abbreviation TSADI :: nat where "TSADI \<equiv> 0x5E6"
abbreviation QOF :: nat where "QOF \<equiv> 0x5E7"
abbreviation RESH :: nat where "RESH \<equiv> 0x5E8"
abbreviation SHIN :: nat where "SHIN \<equiv> 0x5E9"
abbreviation TAV :: nat where "TAV \<equiv> 0x5EA"
abbreviation GERESH :: nat where "GERESH \<equiv> 0x5F3"
abbreviation GERSHAYIM :: nat where "GERSHAYIM \<equiv> 0x5F4"

text \<open>Decimal rendering of an integer, as a template literal \<open>${num}\<close> renders it.\<close>

definition digit_char :: "nat \<Rightarrow> char" where
  "digit_char d = char_of (48 + d)"

fun show_nat :: "nat \<Rightarrow> string" where
  "show_nat n = (if n < 10 then [digit_char n] else show_nat (n div 10) @ [digit_char (n mod 10)])"

declare show_nat.simps [simp del]

definition show_int :: "int \<Rightarrow> ustring" where
  "show_int i = ascii (if i < 0 then CHR ''-'' # show_nat (nat (- i)) else show_nat (nat i))"

text \<open>
  The remainder operator \<open>%\<close> of JavaScript truncates towards zero: the result has the
  sign of the dividend.
\<close>

definition js_rem :: "int \<Rightarrow> int \<Rightarrow> int" where
  "js_rem a b = sgn a * (\<bar>a\<bar> mod \<bar>b\<bar>)"

text \<open>
  \<open>ErrorCode\<close> is the enum of \<open>types/index.ts\<close>. A thrown value is a
  \<open>HebrewCalendarError\<close> of the package (message and code; the code is \<open>None\<close> where
  the source names a member the enum does not have), another \<open>Error\<close> instance
  (raised by a built-in or by the calendar library), or a value that is no \<open>Error\<close>.
  The optional \<open>details\<close> of a \<open>HebrewCalendarError\<close> are left out: nothing reads
  them.
\<close>

datatype ErrorCode = INVALID_DATE | INVALID_LOCATION | API_ERROR | CALCULATION_ERROR
  | CONFIGURATION_ERROR

datatype exn =
    HebrewCalendarError ustring "ErrorCode option"
  | JsError ustring
  | NonError

text \<open>\<open>error instanceof Error ? error.message : fallback\<close>\<close>

fun message_or :: "exn \<Rightarrow> ustring \<Rightarrow> ustring" where
  "message_or (HebrewCalendarError m c) fallback = m"
| "message_or (JsError m) fallback = m"
| "message_or NonError fallback = fallback"

section \<open>Hebrew numerals\<close>

definition ones :: "ustring list" where
  "ones = [[], [ALEF, GERESH], [BET, GERESH], [GIMEL, GERESH], [DALET, GERESH], [HE, GERESH],
     [VAV, GERESH], [ZAYIN, GERESH], [HET, GERESH], [TET, GERESH]]"

definition teens :: "ustring list" where
  "teens = [[YOD, GERESH], [YOD, GERSHAYIM, ALEF], [YOD, GERSHAYIM, BET],
     [YOD, GERSHAYIM, GIMEL], [YOD, GERSHAYIM, DALET], [TET, GERSHAYIM, VAV],
     [TET, GERSHAYIM, ZAYIN], [YOD, GERSHAYIM, ZAYIN], [YOD, GERSHAYIM, HET],
     [YOD, GERSHAYIM, TET]]"

definition tens :: "ustring list" where
  "tens = [[], [], [KAF, GERESH], [LAMED, GERESH], [MEM, GERESH], [NUN, GERESH],
     [SAMEKH, GERESH], [AYIN, GERESH], [PE, GERESH], [TSADI, GERESH]]"

definition hundreds :: "ustring list" where
  "hundreds = [[], [QOF, GERESH], [RESH, GERESH], [SHIN, GERESH], [TAV, GERESH],
     [TAV, QOF, GERESH], [TAV, RESH, GERESH], [TAV, SHIN, GERESH], [TAV, TAV, GERESH],
     [TAV, TAV, QOF, GERESH]]"

definition out_of_range :: "int \<Rightarrow> exn" where
  "out_of_range num = HebrewCalendarError
     (ascii ''Number '' @ show_int num @ ascii '' is out of range for Hebrew numeral conversion'')
     (Some CALCULATION_ERROR)"

text \<open>
  \<open>toHebrewNumeral\<close>: the two special cases come first, then the range check, then the
  hundreds, and then one of the three branches for the rest. \<open>result.slice(0, -1)\<close> is
  \<open>butlast\<close>. Every table index is in range on the branch that uses it.
\<close>

definition toHebrewNumeral :: "int \<Rightarrow> exn + ustring" where
  "toHebrewNumeral num =
     (if num = 15 then Inr [TET, GERSHAYIM, VAV]
      else if num = 16 then Inr [TET, GERSHAYIM, ZAYIN]
      else if num < 1 \<or> num > 999 then Inl (out_of_range num)
      else
        let result0 = [];
            result1 = (if num \<ge> 100 then result0 @ hundreds ! nat (num div 100) else result0);
            num1 = (if num \<ge> 100 then num mod 100 else num)
        in Inr
          (if num1 \<ge> 20 then
             (let result2 = result1 @ tens ! nat (num1 div 10);
                  num2 = num1 mod 10
              in if num2 > 0 then butlast result2 @ [GERSHAYIM] @ ones ! nat num2
                 else result2)
           else if num1 \<ge> 10 then result1 @ teens ! nat (num1 - 10)
           else if num1 > 0 then result1 @ ones ! nat num1
           else result1))"

definition formatHebrewYear :: "int \<Rightarrow> exn + ustring" where
  "formatHebrewYear year = (let displayYear = js_rem year 1000 in toHebrewNumeral displayYear)"

section \<open>Gematria\<close>

text \<open>
  A gematria value is a JavaScript number. The sums are whole and not negative; the one
  other number the code can produce is \<open>NaN\<close> (the ordinal method adds \<open>undefined + 1\<close>
  for a letter it does not know).
\<close>

datatype number = Num nat | NaN

fun plus_number :: "number \<Rightarrow> number \<Rightarrow> number" where
  "plus_number (Num a) (Num b) = Num (a + b)"
| "plus_number _ _ = NaN"

fun show_number :: "number \<Rightarrow> ustring" where
  "show_number (Num n) = ascii (show_nat n)"
| "show_number NaN = ascii ''NaN''"

datatype GematriaMethod = STANDARD | SMALL | LARGE | ORDINAL | REDUCED

record GematriaMultiplier =
  nameEnglish :: ustring
  nameHebrew :: ustring
  value' :: nat
  significance :: ustring
  commonUse :: bool

record GematriaCalculation =
  originalText :: ustring
  calcValue :: number
  calcMethod :: GematriaMethod
  calcSignificance :: ustring
  commonMultipliers :: "GematriaMultiplier list"

definition GEMATRIA_VALUES :: "nat \<rightharpoonup> nat" where
  "GEMATRIA_VALUES = map_of
     [(ALEF, 1), (BET, 2), (GIMEL, 3), (DALET, 4), (HE, 5), (VAV, 6), (ZAYIN, 7), (HET, 8),
      (TET, 9),
      (YOD, 10), (KAF, 20), (LAMED, 30), (MEM, 40), (NUN, 50), (SAMEKH, 60), (AYIN, 70),
      (PE, 80), (TSADI, 90),
      (QOF, 100), (RESH, 200), (SHIN, 300), (TAV, 400),
      (FINAL_KAF, 20), (FINAL_MEM, 40), (FINAL_NUN, 50), (FINAL_PE, 80), (FINAL_TSADI, 90)]"

definition LARGE_GEMATRIA_FINALS :: "nat \<rightharpoonup> nat" where
  "LARGE_GEMATRIA_FINALS = map_of
     [(FINAL_KAF, 500), (FINAL_MEM, 600), (FINAL_NUN, 700), (FINAL_PE, 800),
      (FINAL_TSADI, 900)]"

definition COMMON_MULTIPLIERS :: "GematriaMultiplier list" where
  "COMMON_MULTIPLIERS =
     [\<lparr>nameEnglish = ascii ''Chai'', nameHebrew = [HET, YOD], value' = 18,
        significance = ascii ''Life - most popular multiplier in Jewish giving'',
        commonUse = True\<rparr>,
      \<lparr>nameEnglish = ascii ''Double Chai'',
        nameHebrew = [HET, YOD, 0x20, KAF, PE, VAV, LAMED], value' = 36,
        significance = ascii ''Double life - double blessing'', commonUse = True\<rparr>,
      \<lparr>nameEnglish = ascii ''Shalom'', nameHebrew = [SHIN, LAMED, VAV, FINAL_MEM],
        value' = 376, significance = ascii ''Peace - wholeness and completion'',
        commonUse = False\<rparr>,
      \<lparr>nameEnglish = ascii ''Tzedakah'', nameHebrew = [TSADI, DALET, QOF, HE], value' = 199,
        significance = ascii ''Charity/righteousness - core Jewish value'',
        commonUse = True\<rparr>,
      \<lparr>nameEnglish = ascii ''Mitzvah'', nameHebrew = [MEM, TSADI, VAV, HE], value' = 141,
        significance = ascii ''Commandment - good deed'', commonUse = True\<rparr>,
      \<lparr>nameEnglish = ascii ''Yeshuah'', nameHebrew = [YOD, SHIN, VAV, AYIN, HE],
        value' = 391, significance = ascii ''Salvation - divine rescue'',
        commonUse = False\<rparr>,
      \<lparr>nameEnglish = ascii ''Bracha'', nameHebrew = [BET, RESH, KAF, HE], value' = 227,
        significance = ascii ''Blessing - divine favor'', commonUse = True\<rparr>,
      \<lparr>nameEnglish = ascii ''Kedushah'', nameHebrew = [QOF, DALET, VAV, SHIN, HE],
        value' = 415, significance = ascii ''Holiness - sanctity'', commonUse = False\<rparr>,
      \<lparr>nameEnglish = ascii ''Ahavah'', nameHebrew = [ALEF, HE, BET, HE], value' = 13,
        significance = ascii ''Love - divine and human connection'', commonUse = True\<rparr>,
      \<lparr>nameEnglish = ascii ''Emunah'', nameHebrew = [ALEF, MEM, VAV, NUN, HE], value' = 102,
        significance = ascii ''Faith - trust in divine providence'', commonUse = True\<rparr>]"

text \<open>
  The two \<open>replace\<close> calls of \<open>calculateGematria\<close>: the first removes the code units
  U+0590 to U+05BD, U+05BF to U+05C7, U+05F3 and U+05F4 (nikud and punctuation), the
  second whatever is outside U+05D0 to U+05EA. The patterns have no \<open>u\<close> flag, so they
  work on code units.
\<close>

definition isNikudOrPunctuation :: "nat \<Rightarrow> bool" where
  "isNikudOrPunctuation c =
     ((0x590 \<le> c \<and> c \<le> 0x5BD) \<or> (0x5BF \<le> c \<and> c \<le> 0x5C7) \<or> c = 0x5F3 \<or> c = 0x5F4)"

definition isHebrewLetter :: "nat \<Rightarrow> bool" where
  "isHebrewLetter c = (0x5D0 \<le> c \<and> c \<le> 0x5EA)"

definition cleanText :: "ustring \<Rightarrow> ustring" where
  "cleanText txt = filter isHebrewLetter (filter (\<lambda>c. \<not> isNikudOrPunctuation c) txt)"

definition unknown_letter :: "nat \<Rightarrow> exn" where
  "unknown_letter letter =
     HebrewCalendarError (ascii ''Unknown Hebrew letter: '' @ [letter]) (Some CALCULATION_ERROR)"

text \<open>
  Each \<open>letters.reduce(..., 0)\<close> is a recursion over the letters that carries the sum; a
  \<open>throw\<close> inside the callback ends it.
\<close>

fun standard_from :: "nat \<Rightarrow> nat list \<Rightarrow> exn + nat" where
  "standard_from acc [] = Inr acc"
| "standard_from acc (letter # rest) =
     (case GEMATRIA_VALUES letter of
        None \<Rightarrow> Inl (unknown_letter letter)
      | Some v \<Rightarrow> standard_from (acc + v) rest)"

definition calculateStandardGematria :: "nat list \<Rightarrow> exn + nat" where
  "calculateStandardGematria letters = standard_from 0 letters"

fun large_from :: "nat \<Rightarrow> nat list \<Rightarrow> exn + nat" where
  "large_from acc [] = Inr acc"
| "large_from acc (letter # rest) =
     (let isFinalLetter = LARGE_GEMATRIA_FINALS letter;
          isAtEnd = (rest = [])
      in case isFinalLetter of
           Some big \<Rightarrow>
             if big \<noteq> 0 \<and> isAtEnd then large_from (acc + big) rest
             else (case GEMATRIA_VALUES letter of
                     None \<Rightarrow> Inl (unknown_letter letter)
                   | Some v \<Rightarrow> large_from (acc + v) rest)
         | None \<Rightarrow>
             (case GEMATRIA_VALUES letter of
                None \<Rightarrow> Inl (unknown_letter letter)
              | Some v \<Rightarrow> large_from (acc + v) rest))"

definition calculateLargeGematria :: "nat list \<Rightarrow> exn + nat" where
  "calculateLargeGematria letters = large_from 0 letters"

text \<open>
  \<open>reduceToSingleDigit\<close>: while the number is above 9, replace it by the sum of the
  digits of its decimal rendering.
\<close>

definition parseInt_digit :: "char \<Rightarrow> nat" where
  "parseInt_digit c = of_char c - 48"

definition digit_sum :: "nat \<Rightarrow> nat" where
  "digit_sum num = foldl (\<lambda>acc digit. acc + parseInt_digit digit) 0 (show_nat num)"

lemma parseInt_digit_char: "d < 10 \<Longrightarrow> parseInt_digit (digit_char d) = d"
  by (simp add: parseInt_digit_def digit_char_def)

lemma digit_sum_small: "n < 10 \<Longrightarrow> digit_sum n = n"
  by (subst digit_sum_def, subst show_nat.simps) (simp add: parseInt_digit_char)

lemma digit_sum_step: "\<not> n < 10 \<Longrightarrow> digit_sum n = digit_sum (n div 10) + n mod 10"
  by (subst digit_sum_def, subst show_nat.simps) (simp add: parseInt_digit_char digit_sum_def)

lemma digit_sum_le: "digit_sum n \<le> n"
proof (induction n rule: show_nat.induct)
  case (1 n)
  show ?case
  proof (cases "n < 10")
    case True
    then show ?thesis by (simp add: digit_sum_small)
  next
    case False
    then have "digit_sum n = digit_sum (n div 10) + n mod 10"
      by (rule digit_sum_step)
    moreover have "digit_sum (n div 10) \<le> n div 10"
      using 1 False by simp
    ultimately show ?thesis by linarith
  qed
qed

lemma digit_sum_less: "9 < n \<Longrightarrow> digit_sum n < n"
proof -
  assume big: "9 < n"
  then have "\<not> n < 10" by simp
  then have step: "digit_sum n = digit_sum (n div 10) + n mod 10"
    by (rule digit_sum_step)
  have le: "digit_sum (n div 10) \<le> n div 10"
    by (rule digit_sum_le)
  have pos: "1 \<le> n div 10"
    using big by simp
  have split: "n = 10 * (n div 10) + n mod 10"
    by simp
  show ?thesis
    using step le pos split by linarith
qed

function reduceToSingleDigit :: "nat \<Rightarrow> nat" where
  "reduceToSingleDigit num = (if num > 9 then reduceToSingleDigit (digit_sum num) else num)"
  by pat_completeness auto
termination
proof (relation "measure (\<lambda>num. num)")
  show "wf (measure (\<lambda>num. num))" by simp
next
  fix num :: nat
  assume "9 < num"
  then show "(digit_sum num, num) \<in> measure (\<lambda>num. num)"
    using digit_sum_less [of num] by simp
qed

declare reduceToSingleDigit.simps [simp del]

fun small_from :: "nat \<Rightarrow> nat list \<Rightarrow> exn + nat" where
  "small_from acc [] = Inr acc"
| "small_from acc (letter # rest) =
     (case GEMATRIA_VALUES letter of
        None \<Rightarrow> Inl (unknown_letter letter)
      | Some v \<Rightarrow>
          (let reduced = (if v > 9 then reduceToSingleDigit v else v)
           in small_from (acc + reduced) rest))"

definition calculateSmallGematria :: "nat list \<Rightarrow> exn + nat" where
  "calculateSmallGematria letters = small_from 0 letters"

definition hebrewAlphabet :: "nat list" where
  "hebrewAlphabet = [ALEF, BET, GIMEL, DALET, HE, VAV, ZAYIN, HET, TET, YOD, KAF, LAMED, MEM,
     NUN, SAMEKH, AYIN, PE, TSADI, QOF, RESH, SHIN, TAV]"

text \<open>\<open>indexOf\<close> of a one-unit string: the first position, \<open>None\<close> for \<open>-1\<close>.\<close>

fun indexOf :: "nat list \<Rightarrow> nat \<Rightarrow> nat option" where
  "indexOf [] c = None"
| "indexOf (x # xs) c = (if x = c then Some 0 else map_option Suc (indexOf xs c))"

definition finalMap :: "nat \<rightharpoonup> nat option" where
  "finalMap = map_of
     [(FINAL_KAF, indexOf hebrewAlphabet KAF), (FINAL_MEM, indexOf hebrewAlphabet MEM),
      (FINAL_NUN, indexOf hebrewAlphabet NUN), (FINAL_PE, indexOf hebrewAlphabet PE),
      (FINAL_TSADI, indexOf hebrewAlphabet TSADI)]"

text \<open>
  In the ordinal method a letter that is neither in the alphabet nor a final form makes
  \<open>finalMap[letter]\<close> undefined; \<open>undefined === -1\<close> is false, so nothing is thrown and
  the sum becomes \<open>NaN\<close>.
\<close>

fun ordinal_from :: "number \<Rightarrow> nat list \<Rightarrow> exn + number" where
  "ordinal_from acc [] = Inr acc"
| "ordinal_from acc (letter # rest) =
     (case indexOf hebrewAlphabet letter of
        Some position \<Rightarrow> ordinal_from (plus_number acc (Num (position + 1))) rest
      | None \<Rightarrow>
          (case finalMap letter of
             None \<Rightarrow> ordinal_from (plus_number acc NaN) rest
           | Some None \<Rightarrow> Inl (unknown_letter letter)
           | Some (Some finalPosition) \<Rightarrow>
               ordinal_from (plus_number acc (Num (finalPosition + 1))) rest))"

definition calculateOrdinalGematria :: "nat list \<Rightarrow> exn + number" where
  "calculateOrdinalGematria letters = ordinal_from (Num 0) letters"

definition calculateReducedGematria :: "nat list \<Rightarrow> exn + nat" where
  "calculateReducedGematria letters =
     (case calculateStandardGematria letters of
        Inl e \<Rightarrow> Inl e
      | Inr standardValue \<Rightarrow> Inr (reduceToSingleDigit standardValue))"

definition significanceMap :: "nat \<rightharpoonup> ustring" where
  "significanceMap = map_of
     [(1, ascii ''Unity, God's oneness (Echad)''),
      (7, ascii ''Completion, perfection (Shabbat)''),
      (8, ascii ''Renewal, circumcision (Brit Milah)''),
      (10, ascii ''Completion of digits, minyan''),
      (13, ascii ''Love (Ahavah), unity with God (Echad)''),
      (18, ascii ''Life (Chai) - most blessed number''),
      (26, ascii ''God's name (YHVH)''),
      (36, ascii ''Double Chai, double life''),
      (40, ascii ''Transformation, testing period''),
      (50, ascii ''Jubilee, freedom''),
      (72, ascii ''Mystical name of God''),
      (100, ascii ''Completeness, perfection''),
      (120, ascii ''Full life span (Moses' age)''),
      (180, ascii ''Ten times Chai''),
      (248, ascii ''Positive commandments''),
      (365, ascii ''Negative commandments''),
      (613, ascii ''Total commandments (Taryag Mitzvot)'')]"

definition getGematriaSignificance :: "number \<Rightarrow> ustring" where
  "getGematriaSignificance v =
     (case (case v of Num n \<Rightarrow> significanceMap n | NaN \<Rightarrow> None) of
        Some s \<Rightarrow> s
      | None \<Rightarrow> ascii ''Numerical value: '' @ show_number v)"

definition no_hebrew_letters :: exn where
  "no_hebrew_letters =
     HebrewCalendarError (ascii ''No Hebrew letters found in input text'')
       (Some CALCULATION_ERROR)"

text \<open>
  The body of the \<open>try\<close> block of \<open>calculateGematria\<close>. The \<open>default\<close> branch of the
  \<open>switch\<close> has no counterpart: \<open>GematriaMethod\<close> has the five members only.
\<close>

definition calculateGematria_body :: "ustring \<Rightarrow> GematriaMethod \<Rightarrow> exn + GematriaCalculation" where
  "calculateGematria_body txt m =
     (let clean = cleanText txt in
      if clean = [] then Inl no_hebrew_letters
      else
        let letters = clean;
            computed =
              (case m of
                 STANDARD \<Rightarrow> map_sum id Num (calculateStandardGematria letters)
               | LARGE \<Rightarrow> map_sum id Num (calculateLargeGematria letters)
               | SMALL \<Rightarrow> map_sum id Num (calculateSmallGematria letters)
               | ORDINAL \<Rightarrow> calculateOrdinalGematria letters
               | REDUCED \<Rightarrow> map_sum id Num (calculateReducedGematria letters))
        in case computed of
             Inl e \<Rightarrow> Inl e
           | Inr v \<Rightarrow>
               (let matchingMultipliers = filter (\<lambda>mu. Num (value' mu) = v) COMMON_MULTIPLIERS
                in Inr \<lparr>originalText = txt, calcValue = v, calcMethod = m,
                         calcSignificance = getGematriaSignificance v,
                         commonMultipliers = matchingMultipliers\<rparr>))"

text \<open>The \<open>catch\<close> wraps whatever was thrown into a new \<open>HebrewCalendarError\<close>.\<close>

definition calculateGematria :: "ustring \<Rightarrow> GematriaMethod \<Rightarrow> exn + GematriaCalculation" where
  "calculateGematria txt m =
     (case calculateGematria_body txt m of
        Inr r \<Rightarrow> Inr r
      | Inl e \<Rightarrow>
          Inl (HebrewCalendarError
                 (ascii ''Gematria calculation failed: '' @ message_or e (ascii ''Unknown error''))
                 (Some CALCULATION_ERROR)))"

section \<open>Dates and the calendar library\<close>

text \<open>
  A JavaScript \<open>Date\<close> is modelled by what the package reads from it: the results of
  \<open>toISOString()\<close> (\<open>None\<close> for an invalid date, where the call throws a
  \<open>RangeError\<close>), \<open>toDateString()\<close>, \<open>toTimeString()\<close> and \<open>getDay()\<close> (\<open>None\<close> for
  \<open>NaN\<close>).
\<close>

record jsdate =
  toISOString :: "ustring option"
  toDateString :: ustring
  toTimeString :: ustring
  getDay :: "nat option"

text \<open>An \<open>HDate\<close> of the library, as its three getters show it.\<close>

record hdate =
  getDate :: int
  getMonth :: int
  getFullYear :: int

record Location =
  name :: ustring
  nameHebrew :: ustring
  latitude :: real
  longitude :: real
  timezone :: ustring
  elevation :: "real option"
  country :: ustring
  region :: "ustring option"

text \<open>
  The object \<open>new HebcalZmanim(date, hebcalLocation)\<close>, as the thirteen methods that
  \<open>getZmanim\<close> calls show it.
\<close>

record HebcalZmanim =
  alot :: jsdate
  misheyakir :: jsdate
  sunrise :: jsdate
  sofZmanShma :: jsdate
  sofZmanTfilla :: jsdate
  chatzot :: jsdate
  minchaGedola :: jsdate
  minchaKetana :: jsdate
  plagHaMincha :: jsdate
  sunset :: jsdate
  tzait :: jsdate
  tzait72 :: jsdate
  chatzotLayla :: jsdate

text \<open>
  The packages \<open>@hebcal/hdate\<close>, \<open>@hebcal/core\<close> and \<open>@hebcal/zmanim\<close> are not part of
  the repository. Every function of the model that calls them takes the library as its
  first argument: the two \<open>HDate\<close> constructors, \<open>greg()\<close>, the two static functions
  that \<open>isValidHebrewDate\<close> uses, and the construction of the zmanim object together
  with its thirteen method calls. Each call returns a value or throws.
\<close>

record hebcal =
  newHDate :: "jsdate \<Rightarrow> exn + hdate"
  newHDateHebrew :: "int \<Rightarrow> int \<Rightarrow> int \<Rightarrow> exn + hdate"
  greg :: "hdate \<Rightarrow> exn + jsdate"
  isLeapYear :: "int \<Rightarrow> exn + bool"
  daysInMonth :: "int \<Rightarrow> int \<Rightarrow> exn + int"
  newZmanim :: "jsdate \<Rightarrow> Location \<Rightarrow> exn + HebcalZmanim"

section \<open>Date conversion\<close>

record HebrewDate =
  hebrewDateString :: ustring
  hebrewYear :: int
  hebrewMonth :: ustring
  hebrewMonthName :: ustring
  hebrewDay :: int
  gregorianDate :: jsdate

record EnhancedHebrewDate = HebrewDate +
  isShabbat :: bool
  isYomTov :: bool
  isRoshChodesh :: bool
  isCholedMoed :: bool
  isFastDay :: bool
  dayOfWeek :: "nat option"
  dayOfWeekHebrew :: "ustring option"
  parsha :: "ustring option"
  parshaHebrew :: "ustring option"

text \<open>
  \<open>ConversionResult\<close>: an optional field that is absent is \<open>None\<close>. Its field
  \<open>gregorianDate\<close> is \<open>convertedDate\<close> here, the name being taken by \<open>HebrewDate\<close>.
\<close>

record ConversionResult =
  success :: bool
  hebrewDate :: "HebrewDate option"
  convertedDate :: "jsdate option"
  error :: "ustring option"
  warnings :: "ustring list option"

text \<open>\<open>HEBREW_MONTHS\<close>: the name and the English name of each key.\<close>

definition HEBREW_MONTHS :: "int \<rightharpoonup> ustring \<times> ustring" where
  "HEBREW_MONTHS = map_of
     [(1, ([0x5EA, 0x5B4, 0x5BC, 0x5E9, 0x5B0, 0x5C1, 0x5E8, 0x5B5, 0x5D9], ascii ''Tishrei'')),
      (2, ([0x5DE, 0x5B7, 0x5E8, 0x5B0, 0x5D7, 0x5B6, 0x5E9, 0x5B0, 0x5C1, 0x5D5, 0x5B8, 0x5DF],
           ascii ''Marcheshvan'')),
      (3, ([0x5DB, 0x5B4, 0x5BC, 0x5E1, 0x5B0, 0x5DC, 0x5B5, 0x5D5], ascii ''Kislev'')),
      (4, ([0x5D8, 0x5B5, 0x5D1, 0x5B5, 0x5EA], ascii ''Tevet'')),
      (5, ([0x5E9, 0x5B0, 0x5C1, 0x5D1, 0x5B8, 0x5D8], ascii ''Shevat'')),
      (6, ([0x5D0, 0x5B2, 0x5D3, 0x5B8, 0x5E8], ascii ''Adar'')),
      (7, ([0x5E0, 0x5B4, 0x5D9, 0x5E1, 0x5B8, 0x5DF], ascii ''Nissan'')),
      (8, ([0x5D0, 0x5B4, 0x5D9, 0x5B8, 0x5BC, 0x5E8], ascii ''Iyar'')),
      (9, ([0x5E1, 0x5B4, 0x5D9, 0x5D5, 0x5B8, 0x5DF], ascii ''Sivan'')),
      (10, ([0x5EA, 0x5B7, 0x5BC, 0x5DE, 0x5BC, 0x5D5, 0x5BC, 0x5D6], ascii ''Tammuz'')),
      (11, ([0x5D0, 0x5B8, 0x5D1], ascii ''Av'')),
      (12, ([0x5D0, 0x5B1, 0x5DC, 0x5D5, 0x5BC, 0x5DC], ascii ''Elul'')),
      (13, ([0x5D0, 0x5B2, 0x5D3, 0x5B8, 0x5E8, 0x20, 0x5D1, 0x5F3], ascii ''Adar II''))]"

definition HEBREW_DAYS :: "nat \<rightharpoonup> ustring" where
  "HEBREW_DAYS = map_of
     [(0, [0x5E8, 0x5B4, 0x5D0, 0x5E9, 0x5C1, 0x5D5, 0x5B9, 0x5DF]),
      (1, [0x5E9, 0x5B5, 0x5C1, 0x5E0, 0x5B4, 0x5D9]),
      (2, [0x5E9, 0x5B0, 0x5C1, 0x5DC, 0x5B4, 0x5D9, 0x5E9, 0x5B4, 0x5C1, 0x5D9]),
      (3, [0x5E8, 0x5B0, 0x5D1, 0x5B4, 0x5D9, 0x5E2, 0x5B4, 0x5D9]),
      (4, [0x5D7, 0x5B2, 0x5DE, 0x5B4, 0x5D9, 0x5E9, 0x5B4, 0x5C1, 0x5D9]),
      (5, [0x5E9, 0x5B4, 0x5C1, 0x5E9, 0x5B4, 0x5BC, 0x5C1, 0x5D9]),
      (6, [0x5E9, 0x5B7, 0x5C1, 0x5D1, 0x5B8, 0x5BC, 0x5EA])]"

definition invalid_month :: "int \<Rightarrow> exn" where
  "invalid_month month =
     HebrewCalendarError (ascii ''Invalid Hebrew month: '' @ show_int month)
       (Some CALCULATION_ERROR)"

text \<open>
  The string \<open>`${dayStr} ${monthInfo.name} ${yearStr}`\<close>, built by both conversions after
  the month has been looked up; \<open>toHebrewNumeral\<close> and \<open>formatHebrewYear\<close> may throw.
\<close>

definition formatHebrewDateString :: "int \<Rightarrow> ustring \<Rightarrow> int \<Rightarrow> exn + ustring" where
  "formatHebrewDateString day monthName year =
     (case toHebrewNumeral day of
        Inl e \<Rightarrow> Inl e
      | Inr dayStr \<Rightarrow>
          (case formatHebrewYear year of
             Inl e \<Rightarrow> Inl e
           | Inr yearStr \<Rightarrow> Inr (dayStr @ [0x20] @ monthName @ [0x20] @ yearStr)))"

definition failure :: "ustring \<Rightarrow> ConversionResult" where
  "failure msg = \<lparr>success = False, hebrewDate = None, convertedDate = None,
     error = Some msg, warnings = Some []\<rparr>"

text \<open>The \<open>try\<close> block of \<open>gregorianToHebrew\<close>, then the function with its \<open>catch\<close>.\<close>

definition gregorianToHebrew_try :: "hebcal \<Rightarrow> jsdate \<Rightarrow> exn + ConversionResult" where
  "gregorianToHebrew_try L date =
     (case newHDate L date of
        Inl e \<Rightarrow> Inl e
      | Inr hDate \<Rightarrow>
          (let year = getFullYear hDate; month = getMonth hDate; day = getDate hDate in
           case HEBREW_MONTHS month of
             None \<Rightarrow> Inl (invalid_month month)
           | Some monthInfo \<Rightarrow>
               (case formatHebrewDateString day (fst monthInfo) year of
                  Inl e \<Rightarrow> Inl e
                | Inr dateString \<Rightarrow>
                    Inr \<lparr>success = True,
                         hebrewDate = Some \<lparr>hebrewDateString = dateString, hebrewYear = year,
                           hebrewMonth = fst monthInfo, hebrewMonthName = fst monthInfo,
                           hebrewDay = day, gregorianDate = date\<rparr>,
                         convertedDate = None, error = None, warnings = None\<rparr>)))"

definition gregorianToHebrew :: "hebcal \<Rightarrow> jsdate \<Rightarrow> ConversionResult" where
  "gregorianToHebrew L date =
     (case gregorianToHebrew_try L date of
        Inr r \<Rightarrow> r
      | Inl e \<Rightarrow> failure (message_or e (ascii ''Unknown error converting date'')))"

text \<open>
  \<open>hebrewToGregorian\<close>: the constructor and \<open>greg()\<close> run first; the month, the day and
  the year that are looked up and formatted are the arguments, not the getters of the
  constructed date.
\<close>

definition hebrewToGregorian_try :: "hebcal \<Rightarrow> int \<Rightarrow> int \<Rightarrow> int \<Rightarrow> exn + ConversionResult" where
  "hebrewToGregorian_try L day month year =
     (case newHDateHebrew L day month year of
        Inl e \<Rightarrow> Inl e
      | Inr hDate \<Rightarrow>
          (case greg L hDate of
             Inl e \<Rightarrow> Inl e
           | Inr gregorian \<Rightarrow>
               (case HEBREW_MONTHS month of
                  None \<Rightarrow> Inl (invalid_month month)
                | Some monthInfo \<Rightarrow>
                    (case formatHebrewDateString day (fst monthInfo) year of
                       Inl e \<Rightarrow> Inl e
                     | Inr dateString \<Rightarrow>
                         Inr \<lparr>success = True,
                              hebrewDate = Some \<lparr>hebrewDateString = dateString,
                                hebrewYear = year, hebrewMonth = fst monthInfo,
                                hebrewMonthName = fst monthInfo, hebrewDay = day,
                                gregorianDate = gregorian\<rparr>,
                              convertedDate = Some gregorian, error = None,
                              warnings = None\<rparr>))))"

definition hebrewToGregorian :: "hebcal \<Rightarrow> int \<Rightarrow> int \<Rightarrow> int \<Rightarrow> ConversionResult" where
  "hebrewToGregorian L day month year =
     (case hebrewToGregorian_try L day month year of
        Inr r \<Rightarrow> r
      | Inl e \<Rightarrow> failure (message_or e (ascii ''Unknown error converting Hebrew date'')))"

text \<open>
  \<open>getEnhancedHebrewDate\<close>. The error it throws names \<open>ErrorCode.CONVERSION_ERROR\<close>,
  which the enum does not have, so its code is undefined. The second
  \<open>new HDate(date)\<close> stands outside any \<open>try\<close>.
\<close>

definition getEnhancedHebrewDate :: "hebcal \<Rightarrow> jsdate \<Rightarrow> exn + EnhancedHebrewDate" where
  "getEnhancedHebrewDate L date =
     (let conversionResult = gregorianToHebrew L date in
      case (if success conversionResult then hebrewDate conversionResult else None) of
        None \<Rightarrow>
          Inl (HebrewCalendarError
                 (ascii ''Failed to convert date: '' @
                    (case error conversionResult of Some m \<Rightarrow> m | None \<Rightarrow> ascii ''undefined''))
                 None)
      | Some baseHebrewDate \<Rightarrow>
          (case newHDate L date of
             Inl e \<Rightarrow> Inl e
           | Inr hDate \<Rightarrow>
               (let weekday = getDay date;
                    weekdayHebrew = (case weekday of None \<Rightarrow> None | Some d \<Rightarrow> HEBREW_DAYS d);
                    shabbat = (weekday = Some 6);
                    roshChodesh = (getDate hDate = 1 \<or> getDate hDate = 30)
                in Inr \<lparr>hebrewDateString = hebrewDateString baseHebrewDate,
                     hebrewYear = hebrewYear baseHebrewDate,
                     hebrewMonth = hebrewMonth baseHebrewDate,
                     hebrewMonthName = hebrewMonthName baseHebrewDate,
                     hebrewDay = hebrewDay baseHebrewDate,
                     gregorianDate = gregorianDate baseHebrewDate,
                     isShabbat = shabbat, isYomTov = False, isRoshChodesh = roshChodesh,
                     isCholedMoed = False, isFastDay = False, dayOfWeek = weekday,
                     dayOfWeekHebrew = weekdayHebrew, parsha = None,
                     parshaHebrew = None\<rparr>)))"

definition isHebrewLeapYear :: "hebcal \<Rightarrow> int \<Rightarrow> exn + bool" where
  "isHebrewLeapYear L year = isLeapYear L year"

definition getDaysInHebrewMonth :: "hebcal \<Rightarrow> int \<Rightarrow> int \<Rightarrow> exn + int" where
  "getDaysInHebrewMonth L month year = daysInMonth L month year"

text \<open>\<open>isValidHebrewDate\<close>: whatever is thrown inside makes the result \<open>false\<close>.\<close>

definition isValidHebrewDate :: "hebcal \<Rightarrow> int \<Rightarrow> int \<Rightarrow> int \<Rightarrow> bool" where
  "isValidHebrewDate L day month year =
     (if day < 1 \<or> month < 1 \<or> month > 13 \<or> year < 1 then False
      else
        case (if month = 13 then isHebrewLeapYear L year else Inr True) of
          Inl e \<Rightarrow> False
        | Inr leap \<Rightarrow>
            if month = 13 \<and> \<not> leap then False
            else (case getDaysInHebrewMonth L month year of
                    Inl e \<Rightarrow> False
                  | Inr days \<Rightarrow> day \<le> days))"

section \<open>The service\<close>

text \<open>
  The interface \<open>Zmanim\<close>. A field whose name is also a field of \<open>Location\<close> or a
  method of the library's zmanim object carries the prefix \<open>zmanim\<close>.
\<close>

record Zmanim =
  location :: ustring
  zmanimTimezone :: ustring
  date :: jsdate
  alotHaShachar :: jsdate
  zmanimMisheyakir :: jsdate
  zmanimSunrise :: jsdate
  zmanimSofZmanShma :: jsdate
  zmanimSofZmanTfilla :: jsdate
  zmanimChatzot :: jsdate
  zmanimMinchaGedola :: jsdate
  zmanimMinchaKetana :: jsdate
  zmanimPlagHaMincha :: jsdate
  zmanimSunset :: jsdate
  zmanimTzait :: jsdate
  zmanimTzait72 :: jsdate
  zmanimChatzotLayla :: jsdate

record TimeRestriction =
  startTime :: ustring
  endTime :: ustring
  description :: ustring
  descriptionHebrew :: ustring

record AuctionRestrictions =
  noAuctions :: bool
  restrictedHours :: "TimeRestriction list"
  specialConsiderations :: ustring
  specialConsiderationsHebrew :: ustring
  overrideAllowed :: bool
  emergencyOnly :: bool

record Permission =
  permitted :: bool
  reason :: ustring
  reasonHebrew :: ustring

text \<open>
  \<open>HebrewCalendarConfig\<close> without \<open>customHolidays\<close>, which no function of the service
  reads. \<open>PartialConfig\<close> is \<open>Partial<HebrewCalendarConfig>\<close>: a field that is absent is
  \<open>None\<close>.
\<close>

record HebrewCalendarConfig =
  defaultLocation :: Location
  hebcalApiKey :: "ustring option"
  cacheEnabled :: bool
  cacheTTL :: nat
  includeModernHolidays :: bool
  includeFastDays :: bool
  includeRoshChodesh :: bool
  strictHalachicTimes :: bool

record PartialConfig =
  newDefaultLocation :: "Location option"
  newHebcalApiKey :: "ustring option option"
  newCacheEnabled :: "bool option"
  newCacheTTL :: "nat option"
  newIncludeModernHolidays :: "bool option"
  newIncludeFastDays :: "bool option"
  newIncludeRoshChodesh :: "bool option"
  newStrictHalachicTimes :: "bool option"

text \<open>
  The cache is one \<open>Map\<close> whose keys are built from four templates with four different
  prefixes:
  \<^item> \<open>greg_to_heb_${date.toISOString()}\<close>, holding a \<open>HebrewDate\<close>;
  \<^item> \<open>heb_to_greg_${day}_${month}_${year}\<close>, holding a \<open>Date\<close>;
  \<^item> \<open>enhanced_${date.toISOString()}\<close>, holding an \<open>EnhancedHebrewDate\<close>;
  \<^item> \<open>zmanim_${date.toDateString()}_${loc.latitude}_${loc.longitude}\<close>, holding a
    \<open>Zmanim\<close>.

  No key of one template is a key of another, so the \<open>Map\<close> is modelled as four maps,
  one for each template, keyed by the values that the template interpolates. A cached
  object is a value here; a caller that mutates an object it was given is outside the
  model.
\<close>

record cache =
  gregToHeb :: "ustring \<rightharpoonup> HebrewDate"
  hebToGreg :: "int \<times> int \<times> int \<rightharpoonup> jsdate"
  enhancedDates :: "ustring \<rightharpoonup> EnhancedHebrewDate"
  zmanimTimes :: "ustring \<times> real \<times> real \<rightharpoonup> Zmanim"

datatype cacheKey =
    GregToHebKey ustring
  | HebToGregKey int int int
  | EnhancedKey ustring
  | ZmanimKey ustring real real

definition emptyCache :: cache where
  "emptyCache = \<lparr>gregToHeb = Map.empty, hebToGreg = Map.empty, enhancedDates = Map.empty,
     zmanimTimes = Map.empty\<rparr>"

text \<open>
  \<open>this.cache.delete(cacheKey)\<close>: what the timer does that every \<open>cache.set\<close> starts,
  once the time to live has passed.
\<close>

fun cacheDelete :: "cacheKey \<Rightarrow> cache \<Rightarrow> cache" where
  "cacheDelete (GregToHebKey isoString) c = c\<lparr>gregToHeb := (gregToHeb c)(isoString := None)\<rparr>"
| "cacheDelete (HebToGregKey d m y) c = c\<lparr>hebToGreg := (hebToGreg c)((d, m, y) := None)\<rparr>"
| "cacheDelete (EnhancedKey isoString) c = c\<lparr>enhancedDates := (enhancedDates c)(isoString := None)\<rparr>"
| "cacheDelete (ZmanimKey ds lat lon) c =
     c\<lparr>zmanimTimes := (zmanimTimes c)((ds, lat, lon) := None)\<rparr>"

text \<open>The state of a \<open>HebrewCalendarService\<close>: its two private fields.\<close>

record service =
  config :: HebrewCalendarConfig
  cacheOf :: cache

text \<open>
  \<open>validateConfig\<close> returns the error it throws, if any. \<open>!latitude\<close> holds for the
  number 0, \<open>!timezone\<close> for the empty string. (The first check, that a default
  location is there at all, cannot fail for a value of the type.)
\<close>

definition validateConfig :: "HebrewCalendarConfig \<Rightarrow> exn option" where
  "validateConfig c =
     (if latitude (defaultLocation c) = 0 \<or> longitude (defaultLocation c) = 0 then
        Some (HebrewCalendarError (ascii ''Location must have valid latitude and longitude'')
                (Some INVALID_LOCATION))
      else if timezone (defaultLocation c) = [] then
        Some (HebrewCalendarError (ascii ''Location must specify timezone'')
                (Some INVALID_LOCATION))
      else None)"

definition newService :: "HebrewCalendarConfig \<Rightarrow> exn + service" where
  "newService c =
     (case validateConfig c of
        Some e \<Rightarrow> Inl e
      | None \<Rightarrow> Inr \<lparr>config = c, cacheOf = emptyCache\<rparr>)"

definition clearCache :: "service \<Rightarrow> service" where
  "clearCache s = s\<lparr>cacheOf := emptyCache\<rparr>"

definition mergeConfig :: "HebrewCalendarConfig \<Rightarrow> PartialConfig \<Rightarrow> HebrewCalendarConfig" where
  "mergeConfig c n =
     \<lparr>defaultLocation = (case newDefaultLocation n of Some v \<Rightarrow> v | None \<Rightarrow> defaultLocation c),
      hebcalApiKey = (case newHebcalApiKey n of Some v \<Rightarrow> v | None \<Rightarrow> hebcalApiKey c),
      cacheEnabled = (case newCacheEnabled n of Some v \<Rightarrow> v | None \<Rightarrow> cacheEnabled c),
      cacheTTL = (case newCacheTTL n of Some v \<Rightarrow> v | None \<Rightarrow> cacheTTL c),
      includeModernHolidays =
        (case newIncludeModernHolidays n of Some v \<Rightarrow> v | None \<Rightarrow> includeModernHolidays c),
      includeFastDays = (case newIncludeFastDays n of Some v \<Rightarrow> v | None \<Rightarrow> includeFastDays c),
      includeRoshChodesh =
        (case newIncludeRoshChodesh n of Some v \<Rightarrow> v | None \<Rightarrow> includeRoshChodesh c),
      strictHalachicTimes =
        (case newStrictHalachicTimes n of Some v \<Rightarrow> v | None \<Rightarrow> strictHalachicTimes c)\<rparr>"

text \<open>
  \<open>updateConfig\<close> assigns the merged configuration before it validates it, so the
  assignment stays when the validation throws.
\<close>

definition updateConfig :: "service \<Rightarrow> PartialConfig \<Rightarrow> exn option \<times> service" where
  "updateConfig s n =
     (let s1 = s\<lparr>config := mergeConfig (config s) n\<rparr> in
      case validateConfig (config s1) of
        Some e \<Rightarrow> (Some e, s1)
      | None \<Rightarrow> (None, if newCacheEnabled n = Some False then clearCache s1 else s1))"

text \<open>
  The four cached operations. Each returns what the method returns or throws, and the
  state of the service afterwards. \<open>result.error || fallback\<close> takes the fallback for an
  absent and for an empty message.
\<close>

definition messageOrFallback :: "ustring option \<Rightarrow> ustring \<Rightarrow> ustring" where
  "messageOrFallback m fallback =
     (case m of None \<Rightarrow> fallback | Some t \<Rightarrow> if t = [] then fallback else t)"

definition invalidTimeValue :: exn where
  "invalidTimeValue = JsError (ascii ''Invalid time value'')"

definition service_gregorianToHebrew ::
  "hebcal \<Rightarrow> service \<Rightarrow> jsdate \<Rightarrow> (exn + HebrewDate) \<times> service" where
  "service_gregorianToHebrew L s d =
     (case toISOString d of
        None \<Rightarrow> (Inl invalidTimeValue, s)
      | Some isoString \<Rightarrow>
          (case (if cacheEnabled (config s) then gregToHeb (cacheOf s) isoString else None) of
             Some cached \<Rightarrow> (Inr cached, s)
           | None \<Rightarrow>
               (let result = gregorianToHebrew L d in
                case (if success result then hebrewDate result else None) of
                  None \<Rightarrow>
                    (Inl (HebrewCalendarError
                            (messageOrFallback (error result)
                               (ascii ''Failed to convert Gregorian date''))
                            (Some CALCULATION_ERROR)), s)
                | Some converted \<Rightarrow>
                    (Inr converted,
                     if cacheEnabled (config s)
                     then s\<lparr>cacheOf := (cacheOf s)\<lparr>gregToHeb := (gregToHeb (cacheOf s))(isoString \<mapsto> converted)\<rparr>\<rparr>
                     else s))))"

definition service_hebrewToGregorian ::
  "hebcal \<Rightarrow> service \<Rightarrow> int \<Rightarrow> int \<Rightarrow> int \<Rightarrow> (exn + jsdate) \<times> service" where
  "service_hebrewToGregorian L s day month year =
     (case (if cacheEnabled (config s) then hebToGreg (cacheOf s) (day, month, year) else None) of
        Some cached \<Rightarrow> (Inr cached, s)
      | None \<Rightarrow>
          (let result = hebrewToGregorian L day month year in
           case (if success result then convertedDate result else None) of
             None \<Rightarrow>
               (Inl (HebrewCalendarError
                       (messageOrFallback (error result) (ascii ''Failed to convert Hebrew date''))
                       (Some CALCULATION_ERROR)), s)
           | Some g \<Rightarrow>
               (Inr g,
                if cacheEnabled (config s)
                then s\<lparr>cacheOf := (cacheOf s)\<lparr>hebToGreg :=
                       (hebToGreg (cacheOf s))((day, month, year) \<mapsto> g)\<rparr>\<rparr>
                else s)))"

text \<open>\<open>enrichWithHolidayInfo\<close> has an empty body: it leaves its argument as it is.\<close>

definition enrichWithHolidayInfo :: "EnhancedHebrewDate \<Rightarrow> jsdate \<Rightarrow> EnhancedHebrewDate" where
  "enrichWithHolidayInfo enhanced d = enhanced"

definition getEnhancedDate ::
  "hebcal \<Rightarrow> service \<Rightarrow> jsdate \<Rightarrow> (exn + EnhancedHebrewDate) \<times> service" where
  "getEnhancedDate L s d =
     (case toISOString d of
        None \<Rightarrow> (Inl invalidTimeValue, s)
      | Some isoString \<Rightarrow>
          (case (if cacheEnabled (config s) then enhancedDates (cacheOf s) isoString else None) of
             Some cached \<Rightarrow> (Inr cached, s)
           | None \<Rightarrow>
               (case getEnhancedHebrewDate L d of
                  Inl e \<Rightarrow> (Inl e, s)
                | Inr enhanced0 \<Rightarrow>
                    (let enhanced = enrichWithHolidayInfo enhanced0 d in
                     (Inr enhanced,
                      if cacheEnabled (config s)
                      then s\<lparr>cacheOf := (cacheOf s)\<lparr>enhancedDates :=
                             (enhancedDates (cacheOf s))(isoString \<mapsto> enhanced)\<rparr>\<rparr>
                      else s)))))"

definition zmanimFailed :: "exn \<Rightarrow> exn" where
  "zmanimFailed e =
     HebrewCalendarError
       (ascii ''Failed to calculate zmanim: '' @ message_or e (ascii ''Unknown error''))
       (Some CALCULATION_ERROR)"

text \<open>
  The object literal \<open>result\<close> of \<open>getZmanim\<close>: the name and the time zone of the
  location, the date argument, and the thirteen times.
\<close>

definition zmanimResult :: "Location \<Rightarrow> jsdate \<Rightarrow> HebcalZmanim \<Rightarrow> Zmanim" where
  "zmanimResult loc d z =
     \<lparr>location = name loc, zmanimTimezone = timezone loc, date = d,
      alotHaShachar = alot z, zmanimMisheyakir = misheyakir z,
      zmanimSunrise = sunrise z, zmanimSofZmanShma = sofZmanShma z,
      zmanimSofZmanTfilla = sofZmanTfilla z, zmanimChatzot = chatzot z,
      zmanimMinchaGedola = minchaGedola z, zmanimMinchaKetana = minchaKetana z,
      zmanimPlagHaMincha = plagHaMincha z, zmanimSunset = sunset z,
      zmanimTzait = tzait z, zmanimTzait72 = tzait72 z,
      zmanimChatzotLayla = chatzotLayla z\<rparr>"

definition getZmanim ::
  "hebcal \<Rightarrow> service \<Rightarrow> jsdate \<Rightarrow> Location option \<Rightarrow> (exn + Zmanim) \<times> service" where
  "getZmanim L s d loc0 =
     (let loc = (case loc0 of Some l \<Rightarrow> l | None \<Rightarrow> defaultLocation (config s));
          cacheKey = (toDateString d, latitude loc, longitude loc)
      in case (if cacheEnabled (config s) then zmanimTimes (cacheOf s) cacheKey else None) of
           Some cached \<Rightarrow> (Inr cached, s)
         | None \<Rightarrow>
             (case newZmanim L d loc of
                Inl e \<Rightarrow> (Inl (zmanimFailed e), s)
              | Inr z \<Rightarrow>
                  (let result = zmanimResult loc d z
                   in (Inr result,
                       if cacheEnabled (config s)
                       then s\<lparr>cacheOf := (cacheOf s)\<lparr>zmanimTimes :=
                              (zmanimTimes (cacheOf s))(cacheKey \<mapsto> result)\<rparr>\<rparr>
                       else s))))"

section \<open>Auction restrictions\<close>

text \<open>The five object literals of \<open>getAuctionRestrictions\<close>.\<close>

definition defaultRestrictions :: AuctionRestrictions where
  "defaultRestrictions =
     \<lparr>noAuctions = False, restrictedHours = [],
      specialConsiderations = ascii ''Regular day - no restrictions'',
      specialConsiderationsHebrew = [0x5D9, 0x5D5, 0x5DD, 0x20, 0x5E8, 0x5D2, 0x5D9, 0x5DC,
        0x20, 0x2D, 0x20, 0x5D0, 0x5D9, 0x5DF, 0x20, 0x5D4, 0x5D2, 0x5D1, 0x5DC, 0x5D5, 0x5EA],
      overrideAllowed = True, emergencyOnly = False\<rparr>"

definition shabbatRestrictions :: AuctionRestrictions where
  "shabbatRestrictions =
     \<lparr>noAuctions = True, restrictedHours = [],
      specialConsiderations = ascii ''No auctions permitted on Shabbat'',
      specialConsiderationsHebrew = [0x5D0, 0x5E1, 0x5D5, 0x5E8, 0x20, 0x5DC, 0x5E2, 0x5E8,
        0x5D5, 0x5DA, 0x20, 0x5DE, 0x5DB, 0x5D9, 0x5E8, 0x5D5, 0x5EA, 0x20, 0x5E4, 0x5D5, 0x5DE,
        0x5D1, 0x5D9, 0x5D5, 0x5EA, 0x20, 0x5D1, 0x5E9, 0x5D1, 0x5EA],
      overrideAllowed = False, emergencyOnly = False\<rparr>"

definition yomTovRestrictions :: AuctionRestrictions where
  "yomTovRestrictions =
     \<lparr>noAuctions = True, restrictedHours = [],
      specialConsiderations = ascii ''No auctions permitted on Yom Tov'',
      specialConsiderationsHebrew = [0x5D0, 0x5E1, 0x5D5, 0x5E8, 0x20, 0x5DC, 0x5E2, 0x5E8,
        0x5D5, 0x5DA, 0x20, 0x5DE, 0x5DB, 0x5D9, 0x5E8, 0x5D5, 0x5EA, 0x20, 0x5E4, 0x5D5, 0x5DE,
        0x5D1, 0x5D9, 0x5D5, 0x5EA, 0x20, 0x5D1, 0x5D9, 0x5D5, 0x5DD, 0x20, 0x5D8, 0x5D5, 0x5D1],
      overrideAllowed = False, emergencyOnly = False\<rparr>"

definition roshChodeshRestrictions :: AuctionRestrictions where
  "roshChodeshRestrictions =
     \<lparr>noAuctions = False,
      restrictedHours =
        [\<lparr>startTime = ascii ''shacharit'', endTime = ascii ''after_hallel'',
          description = ascii ''Limited during morning prayers with Hallel'',
          descriptionHebrew = [0x5D4, 0x5D2, 0x5D1, 0x5DC, 0x5D4, 0x20, 0x5D1, 0x5D6, 0x5DE,
            0x5DF, 0x20, 0x5EA, 0x5E4, 0x5D9, 0x5DC, 0x5EA, 0x20, 0x5E9, 0x5D7, 0x5E8, 0x5D9,
            0x5EA, 0x20, 0x5E2, 0x5DD, 0x20, 0x5D4, 0x5DC, 0x5DC]\<rparr>],
      specialConsiderations = ascii ''Rosh Chodesh - avoid during special prayers'',
      specialConsiderationsHebrew = [0x5E8, 0x5D0, 0x5E9, 0x20, 0x5D7, 0x5D5, 0x5D3, 0x5E9,
        0x20, 0x2D, 0x20, 0x5DC, 0x5D4, 0x5D9, 0x5DE, 0x5E0, 0x5E2, 0x20, 0x5D1, 0x5D6, 0x5DE,
        0x5DF, 0x20, 0x5EA, 0x5E4, 0x5D9, 0x5DC, 0x5D5, 0x5EA, 0x20, 0x5DE, 0x5D9, 0x5D5, 0x5D7,
        0x5D3, 0x5D5, 0x5EA],
      overrideAllowed = True, emergencyOnly = False\<rparr>"

text \<open>\<open>toTimeString().slice(0, 5)\<close> is the first five code units of the time string.\<close>

definition fastDayRestrictions :: "Zmanim \<Rightarrow> AuctionRestrictions" where
  "fastDayRestrictions zmanim =
     \<lparr>noAuctions = False,
      restrictedHours =
        [\<lparr>startTime = take 5 (toTimeString (alotHaShachar zmanim)),
          endTime = take 5 (toTimeString (zmanimTzait zmanim)),
          description = ascii ''Sensitive timing during fast day'',
          descriptionHebrew = [0x5E2, 0x5D9, 0x5EA, 0x5D5, 0x5D9, 0x20, 0x5E8, 0x5D2, 0x5D9,
            0x5E9, 0x20, 0x5D1, 0x5D9, 0x5D5, 0x5DD, 0x20, 0x5E6, 0x5D5, 0x5DD]\<rparr>],
      specialConsiderations = ascii ''Fast day - proceed with sensitivity'',
      specialConsiderationsHebrew = [0x5D9, 0x5D5, 0x5DD, 0x20, 0x5E6, 0x5D5, 0x5DD, 0x20,
        0x2D, 0x20, 0x5DC, 0x5D4, 0x5DE, 0x5E9, 0x5D9, 0x5DA, 0x20, 0x5D1, 0x5E8, 0x5D2, 0x5D9,
        0x5E9, 0x5D5, 0x5EA],
      overrideAllowed = True, emergencyOnly = False\<rparr>"

text \<open>
  The body of \<open>getAuctionRestrictions\<close> after its two calls: the variable
  \<open>restrictions\<close> starts as the default and is assigned by four \<open>if\<close> statements in
  turn. They are separate statements, not an \<open>else if\<close> chain; only the third tests the
  flags of the two before it.
\<close>

definition restrictionsOf :: "EnhancedHebrewDate \<Rightarrow> Zmanim \<Rightarrow> AuctionRestrictions" where
  "restrictionsOf enhanced zmanim =
     (let restrictions0 = defaultRestrictions;
          restrictions1 = (if isShabbat enhanced then shabbatRestrictions else restrictions0);
          restrictions2 = (if isYomTov enhanced then yomTovRestrictions else restrictions1);
          restrictions3 =
            (if isRoshChodesh enhanced \<and> \<not> isShabbat enhanced \<and> \<not> isYomTov enhanced
             then roshChodeshRestrictions else restrictions2);
          restrictions4 =
            (if isFastDay enhanced then fastDayRestrictions zmanim else restrictions3)
      in restrictions4)"

definition getAuctionRestrictions ::
  "hebcal \<Rightarrow> service \<Rightarrow> jsdate \<Rightarrow> Location option \<Rightarrow> (exn + AuctionRestrictions) \<times> service" where
  "getAuctionRestrictions L s d loc0 =
     (case getEnhancedDate L s d of
        (Inl e, s1) \<Rightarrow> (Inl e, s1)
      | (Inr enhanced, s1) \<Rightarrow>
          (case getZmanim L s1 d loc0 of
             (Inl e, s2) \<Rightarrow> (Inl e, s2)
           | (Inr zmanim, s2) \<Rightarrow> (Inr (restrictionsOf enhanced zmanim), s2)))"

text \<open>
  String comparison of JavaScript: by code units, a proper prefix being smaller.
  \<open>a >= b\<close> is \<open>js_le b a\<close>.
\<close>

fun js_le :: "ustring \<Rightarrow> ustring \<Rightarrow> bool" where
  "js_le [] ys = True"
| "js_le (x # xs) [] = False"
| "js_le (x # xs) (y # ys) = (if x < y then True else if y < x then False else js_le xs ys)"

definition isTimeBetween :: "ustring \<Rightarrow> ustring \<Rightarrow> ustring \<Rightarrow> bool" where
  "isTimeBetween current start end' =
     (if 0x3A \<in> set start \<and> 0x3A \<in> set end' then js_le start current \<and> js_le current end'
      else False)"

definition auctionsPermitted :: Permission where
  "auctionsPermitted =
     \<lparr>permitted = True, reason = ascii ''Auctions permitted'',
      reasonHebrew = [0x5DE, 0x5DB, 0x5D9, 0x5E8, 0x5D5, 0x5EA, 0x20, 0x5E4, 0x5D5, 0x5DE, 0x5D1,
        0x5D9, 0x5D5, 0x5EA, 0x20, 0x5DE, 0x5D5, 0x5EA, 0x5E8, 0x5D5, 0x5EA]\<rparr>"

text \<open>The \<open>for\<close> loop of \<open>isAuctionPermitted\<close> and the \<open>return\<close> after it.\<close>

fun checkRestrictedHours :: "ustring \<Rightarrow> TimeRestriction list \<Rightarrow> Permission" where
  "checkRestrictedHours currentTime [] = auctionsPermitted"
| "checkRestrictedHours currentTime (restriction # rest) =
     (if isTimeBetween currentTime (startTime restriction) (endTime restriction)
      then \<lparr>permitted = False, reason = description restriction,
             reasonHebrew = descriptionHebrew restriction\<rparr>
      else checkRestrictedHours currentTime rest)"

text \<open>The body of \<open>isAuctionPermitted\<close> after its call of \<open>getAuctionRestrictions\<close>.\<close>

definition permissionOf :: "AuctionRestrictions \<Rightarrow> jsdate \<Rightarrow> Permission" where
  "permissionOf restrictions dateTime =
     (if noAuctions restrictions then
        \<lparr>permitted = False, reason = specialConsiderations restrictions,
         reasonHebrew = specialConsiderationsHebrew restrictions\<rparr>
      else
        let currentTime = take 5 (toTimeString dateTime)
        in checkRestrictedHours currentTime (restrictedHours restrictions))"

definition isAuctionPermitted ::
  "hebcal \<Rightarrow> service \<Rightarrow> jsdate \<Rightarrow> Location option \<Rightarrow> (exn + Permission) \<times> service" where
  "isAuctionPermitted L s dateTime loc0 =
     (case getAuctionRestrictions L s dateTime loc0 of
        (Inl e, s1) \<Rightarrow> (Inl e, s1)
      | (Inr restrictions, s1) \<Rightarrow> (Inr (permissionOf restrictions dateTime), s1))"

text \<open>
  The states a service can be in: the state after construction, and the state after
  any public method that changes the private fields, or after a timer of the cache has
  fired.
\<close>

inductive reachable :: "hebcal \<Rightarrow> service \<Rightarrow> bool" for L :: hebcal where
  constructed: "newService c = Inr s \<Longrightarrow> reachable L s"
| after_gregorianToHebrew:
    "reachable L s \<Longrightarrow> reachable L (snd (service_gregorianToHebrew L s d))"
| after_hebrewToGregorian:
    "reachable L s \<Longrightarrow> reachable L (snd (service_hebrewToGregorian L s day month year))"
| after_getEnhancedDate: "reachable L s \<Longrightarrow> reachable L (snd (getEnhancedDate L s d))"
| after_getZmanim: "reachable L s \<Longrightarrow> reachable L (snd (getZmanim L s d loc0))"
| after_getAuctionRestrictions:
    "reachable L s \<Longrightarrow> reachable L (snd (getAuctionRestrictions L s d loc0))"
| after_isAuctionPermitted:
    "reachable L s \<Longrightarrow> reachable L (snd (isAuctionPermitted L s d loc0))"
| after_clearCache: "reachable L s \<Longrightarrow> reachable L (clearCache s)"
| after_updateConfig: "reachable L s \<Longrightarrow> reachable L (snd (updateConfig s n))"
| after_timer: "reachable L s \<Longrightarrow> reachable L (s\<lparr>cacheOf := cacheDelete k (cacheOf s)\<rparr>)"

section \<open>The numeral format of the specification\<close>

text \<open>
  The format the specification gives for a numeral, in its own words: a geresh after
  the letter when the numeral is a single letter, a gershayim immediately before the last
  letter when it has more than one, and no other mark. The letters of a string are its
  code units from U+05D0 to U+05EA.
\<close>

definition marks_as_specified :: "ustring \<Rightarrow> bool" where
  "marks_as_specified s =
     (let letters = filter isHebrewLetter s in
      if length letters = 1 then s = letters @ [GERESH]
      else length letters > 1 \<and> s = butlast letters @ [GERSHAYIM, last letters])"

section \<open>The rule order of the specification\<close>


section \<open>Clock times\<close>

text \<open>
  A clock time as \<open>toTimeString\<close> starts for a valid date: two digits for the hour, a
  colon, two digits for the minute.
\<close>

definition clockTime :: "nat \<Rightarrow> nat \<Rightarrow> ustring" where
  "clockTime h m = [48 + h div 10, 48 + h mod 10, 0x3A, 48 + m div 10, 48 + m mod 10]"

section \<open>The holiday flags in the cache\<close>

definition holidayFlagsOff :: "EnhancedHebrewDate \<Rightarrow> bool" where
  "holidayFlagsOff e = (\<not> isYomTov e \<and> \<not> isFastDay e \<and> \<not> isCholedMoed e)"

definition cacheFlagsOff :: "service \<Rightarrow> bool" where
  "cacheFlagsOff s = (\<forall>k e. enhancedDates (cacheOf s) k = Some e \<longrightarrow> holidayFlagsOff e)"

section \<open>A stand-in for the library\<close>

text \<open>
  To run the model on concrete inputs the library argument needs a value. The stand-in
  below answers for the days that the package's tests name, the way the tests expect
  (16 September 2023 is 1 Tishrei 5784, month 1 of \<open>HEBREW_MONTHS\<close>; month 1 has 30 days
  and month 12 has 29 in every year; 5784 is a leap year by the rule of the
  specification, \<open>(7 * year + 1) mod 19 < 7\<close>), for 11 March 2024 (1 Adar II 5784, a
  Monday) and for 30 September 2239 (1 Tishrei 6000). It throws for every other date.
  It is the calendar as the package's tests describe it, not a release of the library:
  it numbers the months as \<open>HEBREW_MONTHS\<close> does and it answers the questions of
  \<open>isValidHebrewDate\<close>. No theorem about all libraries depends on it; it only shows that
  their hypotheses can be met.
\<close>

definition makeDate :: "string \<Rightarrow> string \<Rightarrow> string \<Rightarrow> nat \<Rightarrow> jsdate" where
  "makeDate isoString dateString timeString weekday =
     \<lparr>toISOString = Some (ascii isoString), toDateString = ascii dateString,
      toTimeString = ascii timeString, getDay = Some weekday\<rparr>"

definition roshHashanah5784 :: jsdate where
  "roshHashanah5784 = makeDate ''2023-09-16T00:00:00.000Z'' ''Sat Sep 16 2023''
     ''00:00:00 GMT+0000 (Coordinated Universal Time)'' 6"

definition roshHashanah6000 :: jsdate where
  "roshHashanah6000 = makeDate ''2239-09-30T00:00:00.000Z'' ''Mon Sep 30 2239''
     ''00:00:00 GMT+0000 (Coordinated Universal Time)'' 1"

text \<open>An instant of Monday 11 March 2024, given by its clock time \<open>HH:MM\<close>.\<close>

definition roshChodeshAt :: "string \<Rightarrow> jsdate" where
  "roshChodeshAt t = makeDate (''2024-03-11T'' @ t @ '':00.000Z'') ''Mon Mar 11 2024''
     (t @ '':00 GMT+0000 (Coordinated Universal Time)'') 1"

definition testZmanim :: HebcalZmanim where
  "testZmanim =
     \<lparr>alot = roshChodeshAt ''04:33'', misheyakir = roshChodeshAt ''05:02'',
      sunrise = roshChodeshAt ''05:53'', sofZmanShma = roshChodeshAt ''08:50'',
      sofZmanTfilla = roshChodeshAt ''09:49'', chatzot = roshChodeshAt ''11:47'',
      minchaGedola = roshChodeshAt ''12:17'', minchaKetana = roshChodeshAt ''15:14'',
      plagHaMincha = roshChodeshAt ''16:28'', sunset = roshChodeshAt ''17:42'',
      tzait = roshChodeshAt ''18:19'', tzait72 = roshChodeshAt ''18:54'',
      chatzotLayla = roshChodeshAt ''23:47''\<rparr>"

definition outsideStandIn :: exn where
  "outsideStandIn = JsError (ascii ''outside the stand-in'')"

definition testLibrary :: hebcal where
  "testLibrary =
     \<lparr>newHDate = (\<lambda>d.
        if toDateString d = ascii ''Sat Sep 16 2023''
        then Inr \<lparr>getDate = 1, getMonth = 1, getFullYear = 5784\<rparr>
        else if toDateString d = ascii ''Mon Mar 11 2024''
        then Inr \<lparr>getDate = 1, getMonth = 13, getFullYear = 5784\<rparr>
        else if toDateString d = ascii ''Mon Sep 30 2239''
        then Inr \<lparr>getDate = 1, getMonth = 1, getFullYear = 6000\<rparr>
        else Inl outsideStandIn),
      newHDateHebrew = (\<lambda>day month year.
        if (day, month, year) = (1, 1, 5784) \<or> (day, month, year) = (1, 13, 5784)
           \<or> (day, month, year) = (1, 1, 6000)
        then Inr \<lparr>getDate = day, getMonth = month, getFullYear = year\<rparr>
        else Inl outsideStandIn),
      greg = (\<lambda>h.
        if h = \<lparr>getDate = 1, getMonth = 1, getFullYear = 5784\<rparr> then Inr roshHashanah5784
        else if h = \<lparr>getDate = 1, getMonth = 13, getFullYear = 5784\<rparr>
        then Inr (roshChodeshAt ''00:00'')
        else if h = \<lparr>getDate = 1, getMonth = 1, getFullYear = 6000\<rparr>
        then Inr roshHashanah6000
        else Inl outsideStandIn),
      isLeapYear = (\<lambda>year. Inr ((7 * year + 1) mod 19 < 7)),
      daysInMonth = (\<lambda>month year.
        if month = 1 then Inr 30 else if month = 12 then Inr 29 else Inl outsideStandIn),
      newZmanim = (\<lambda>d loc. Inr testZmanim)\<rparr>"

definition jerusalem :: Location where
  "jerusalem = \<lparr>name = ascii ''Jerusalem'',
     nameHebrew = [YOD, RESH, VAV, SHIN, LAMED, YOD, FINAL_MEM],
     latitude = 31.7683, longitude = 35.2137, timezone = ascii ''Asia/Jerusalem'',
     elevation = Some 754, country = ascii ''Israel'', region = None\<rparr>"

definition testConfig :: "bool \<Rightarrow> HebrewCalendarConfig" where
  "testConfig enabled = \<lparr>defaultLocation = jerusalem, hebcalApiKey = None,
     cacheEnabled = enabled, cacheTTL = 86400000, includeModernHolidays = True,
     includeFastDays = True, includeRoshChodesh = True, strictHalachicTimes = True\<rparr>"

definition testService :: "bool \<Rightarrow> service" where
  "testService enabled = \<lparr>config = testConfig enabled, cacheOf = emptyCache\<rparr>"

section \<open>Properties of the numerals\<close>

text \<open>
  Claim C4. \<open>toHebrewNumeral\<close> returns the three code units tet, gershayim, vav for 15 and
  tet, gershayim, zayin for 16. It throws its out-of-range error exactly for the inputs
  below 1 or above 999, and returns a string exactly for the inputs from 1 to 999.
\<close>

theorem toHebrewNumeral_exceptions_and_range:
  "toHebrewNumeral 15 = Inr [TET, GERSHAYIM, VAV] \<and>
   toHebrewNumeral 16 = Inr [TET, GERSHAYIM, ZAYIN] \<and>
   (\<forall>n. (toHebrewNumeral n = Inl (out_of_range n)) = (n < 1 \<or> 999 < n)) \<and>
   (\<forall>n. (\<exists>s. toHebrewNumeral n = Inr s) = (1 \<le> n \<and> n \<le> 999))"
  by (auto simp: toHebrewNumeral_def Let_def)

text \<open>
  Claim C5 (the code departs from it). For 25 the function returns kaf, gershayim, he
  followed by a geresh: the geresh of the units letter is kept after the gershayim has
  been inserted. The string is not in the format of the specification, and it is not the
  three code units kaf, gershayim, he that the package's test expects. For 784 (the year
  5784 of the comment in \<open>formatHebrewYear\<close>) the hundreds keep their geresh as well:
  the result is tav, shin, geresh, pe, gershayim, dalet, geresh, not the tav, shin, pe,
  gershayim, dalet of the comment.
\<close>

theorem toHebrewNumeral_25_trailing_geresh:
  "toHebrewNumeral 25 = Inr [KAF, GERSHAYIM, HE, GERESH] \<and>
   \<not> marks_as_specified [KAF, GERSHAYIM, HE, GERESH] \<and>
   toHebrewNumeral 25 \<noteq> Inr [KAF, GERSHAYIM, HE] \<and>
   toHebrewNumeral 784 = Inr [TAV, SHIN, GERESH, PE, GERSHAYIM, DALET, GERESH] \<and>
   \<not> marks_as_specified [TAV, SHIN, GERESH, PE, GERSHAYIM, DALET, GERESH] \<and>
   toHebrewNumeral 784 \<noteq> Inr [TAV, SHIN, PE, GERSHAYIM, DALET]"
  by (simp add: toHebrewNumeral_def hundreds_def tens_def ones_def marks_as_specified_def
      isHebrewLetter_def)

section \<open>Properties of the gematria\<close>

lemma cleanText_chai: "cleanText [HET, YOD] = [HET, YOD]"
  by (simp add: cleanText_def isHebrewLetter_def isNikudOrPunctuation_def)

lemma cleanText_shalom:
  "cleanText [SHIN, LAMED, VAV, FINAL_MEM] = [SHIN, LAMED, VAV, FINAL_MEM]"
  by (simp add: cleanText_def isHebrewLetter_def isNikudOrPunctuation_def)

lemma standard_chai: "calculateStandardGematria [HET, YOD] = Inr 18"
  by (simp add: calculateStandardGematria_def GEMATRIA_VALUES_def)

lemma standard_shalom: "calculateStandardGematria [SHIN, LAMED, VAV, FINAL_MEM] = Inr 376"
  by (simp add: calculateStandardGematria_def GEMATRIA_VALUES_def)

lemma finals_take_base_value:
  "GEMATRIA_VALUES FINAL_KAF = GEMATRIA_VALUES KAF \<and>
   GEMATRIA_VALUES FINAL_MEM = GEMATRIA_VALUES MEM \<and>
   GEMATRIA_VALUES FINAL_NUN = GEMATRIA_VALUES NUN \<and>
   GEMATRIA_VALUES FINAL_PE = GEMATRIA_VALUES PE \<and>
   GEMATRIA_VALUES FINAL_TSADI = GEMATRIA_VALUES TSADI"
  by (simp add: GEMATRIA_VALUES_def)

lemma no_letters_fails:
  "cleanText txt = [] \<Longrightarrow>
   calculateGematria txt m =
     Inl (HebrewCalendarError
            (ascii ''Gematria calculation failed: No Hebrew letters found in input text'')
            (Some CALCULATION_ERROR))"
  by (simp add: calculateGematria_def calculateGematria_body_def no_hebrew_letters_def ascii_def)

text \<open>
  Claim C7. Under the standard method the value of het-yod is 18 and the value of
  shin-lamed-vav-final mem is 376; each final form has the value of its base letter. For
  every input whose cleaned text is empty, and every method, \<open>calculateGematria\<close> throws
  the error whose message says that no Hebrew letters were found.
\<close>

theorem calculateGematria_standard_values_and_empty:
  "map_sum id calcValue (calculateGematria [HET, YOD] STANDARD) = Inr (Num 18) \<and>
   map_sum id calcValue (calculateGematria [SHIN, LAMED, VAV, FINAL_MEM] STANDARD)
     = Inr (Num 376) \<and>
   GEMATRIA_VALUES FINAL_KAF = GEMATRIA_VALUES KAF \<and>
   GEMATRIA_VALUES FINAL_MEM = GEMATRIA_VALUES MEM \<and>
   GEMATRIA_VALUES FINAL_NUN = GEMATRIA_VALUES NUN \<and>
   GEMATRIA_VALUES FINAL_PE = GEMATRIA_VALUES PE \<and>
   GEMATRIA_VALUES FINAL_TSADI = GEMATRIA_VALUES TSADI \<and>
   (\<forall>txt m. cleanText txt = [] \<longrightarrow>
      calculateGematria txt m =
        Inl (HebrewCalendarError
               (ascii ''Gematria calculation failed: No Hebrew letters found in input text'')
               (Some CALCULATION_ERROR)))"
proof -
  have chai: "map_sum id calcValue (calculateGematria [HET, YOD] STANDARD) = Inr (Num 18)"
    by (simp add: calculateGematria_def calculateGematria_body_def cleanText_chai
        standard_chai Let_def)
  have shalom:
    "map_sum id calcValue (calculateGematria [SHIN, LAMED, VAV, FINAL_MEM] STANDARD)
       = Inr (Num 376)"
    by (simp add: calculateGematria_def calculateGematria_body_def cleanText_shalom
        standard_shalom Let_def)
  show ?thesis
    using chai shalom finals_take_base_value no_letters_fails by blast
qed

theorem calculateGematria_standard_values_and_empty_witness:
  "cleanText (ascii ''hello'') = [] \<and>
   calculateGematria (ascii ''hello'') STANDARD =
     Inl (HebrewCalendarError
            (ascii ''Gematria calculation failed: No Hebrew letters found in input text'')
            (Some CALCULATION_ERROR))"
proof -
  have empty: "cleanText (ascii ''hello'') = []"
    by (simp add: cleanText_def isHebrewLetter_def isNikudOrPunctuation_def ascii_def)
  show ?thesis
    using empty calculateGematria_standard_values_and_empty by blast
qed

section \<open>Properties of the restriction rules\<close>

lemma restrictionsOf_flags_off:
  "holidayFlagsOff e \<Longrightarrow>
   restrictionsOf e z =
     (if isShabbat e then shabbatRestrictions
      else if isRoshChodesh e then roshChodeshRestrictions else defaultRestrictions)"
  by (simp add: restrictionsOf_def holidayFlagsOff_def)

lemma shabbat_blocks_unless_fast_day:
  "isShabbat e \<Longrightarrow> \<not> isFastDay e \<Longrightarrow>
   noAuctions (restrictionsOf e z) \<and> \<not> overrideAllowed (restrictionsOf e z)"
  by (simp add: restrictionsOf_def shabbatRestrictions_def yomTovRestrictions_def)

lemma distinct_verdicts:
  "shabbatRestrictions \<noteq> yomTovRestrictions"
  "roshChodeshRestrictions \<noteq> yomTovRestrictions"
  "defaultRestrictions \<noteq> yomTovRestrictions"
  "shabbatRestrictions \<noteq> fastDayRestrictions z"
  "roshChodeshRestrictions \<noteq> fastDayRestrictions z"
  "defaultRestrictions \<noteq> fastDayRestrictions z"
  by (simp_all add: shabbatRestrictions_def yomTovRestrictions_def roshChodeshRestrictions_def
      defaultRestrictions_def fastDayRestrictions_def ascii_def)

text \<open>
  The four \<open>if\<close> statements taken alone are not a chain of \<open>else if\<close>: on a record with
  \<open>isShabbat\<close> and \<open>isFastDay\<close> both set the fourth statement would assign last. No
  call of \<open>getAuctionRestrictions\<close> evaluates them on such a record: the method takes a
  \<open>Date\<close>, and the record it reads comes from \<open>getEnhancedDate\<close>, where \<open>isYomTov\<close> and
  \<open>isFastDay\<close> are never set. On the records with those two flags off the statements
  follow the order of the specification.
\<close>

lemma restrictionsOf_shabbat_fast_day:
  "restrictionsOf (enhanced\<lparr>isShabbat := True, isFastDay := True\<rparr>) zmanim
     = fastDayRestrictions zmanim"
  by (simp add: restrictionsOf_def)



section \<open>The holiday flags are never set\<close>

lemma getEnhancedHebrewDate_flags:
  "getEnhancedHebrewDate L d = Inr e \<Longrightarrow> holidayFlagsOff e"
  by (auto simp: getEnhancedHebrewDate_def holidayFlagsOff_def Let_def
      split: option.splits sum.splits if_splits)

lemma getEnhancedDate_flags:
  "cacheFlagsOff s \<Longrightarrow> getEnhancedDate L s d = (Inr e, s') \<Longrightarrow>
   holidayFlagsOff e \<and> cacheFlagsOff s'"
  by (auto simp: getEnhancedDate_def cacheFlagsOff_def enrichWithHolidayInfo_def Let_def
      dest: getEnhancedHebrewDate_flags split: option.splits sum.splits if_splits)

lemma getEnhancedDate_keeps:
  "cacheFlagsOff s \<Longrightarrow> cacheFlagsOff (snd (getEnhancedDate L s d))"
  by (auto simp: getEnhancedDate_def cacheFlagsOff_def enrichWithHolidayInfo_def Let_def
      dest: getEnhancedHebrewDate_flags split: option.splits sum.splits if_splits)

lemma service_gregorianToHebrew_keeps:
  "cacheFlagsOff s \<Longrightarrow> cacheFlagsOff (snd (service_gregorianToHebrew L s d))"
  by (auto simp: service_gregorianToHebrew_def cacheFlagsOff_def Let_def
      split: option.splits sum.splits if_splits)

lemma service_hebrewToGregorian_keeps:
  "cacheFlagsOff s \<Longrightarrow> cacheFlagsOff (snd (service_hebrewToGregorian L s day month year))"
  by (auto simp: service_hebrewToGregorian_def cacheFlagsOff_def Let_def
      split: option.splits sum.splits if_splits)

lemma getZmanim_keeps:
  "cacheFlagsOff s \<Longrightarrow> cacheFlagsOff (snd (getZmanim L s d loc0))"
  by (auto simp: getZmanim_def cacheFlagsOff_def Let_def
      split: option.splits sum.splits if_splits)

lemma getAuctionRestrictions_keeps:
  assumes "cacheFlagsOff s"
  shows "cacheFlagsOff (snd (getAuctionRestrictions L s d loc0))"
proof -
  obtain r1 s1 where ged: "getEnhancedDate L s d = (r1, s1)"
    by (cases "getEnhancedDate L s d")
  have inv1: "cacheFlagsOff s1"
    using getEnhancedDate_keeps [OF assms, of L d] ged by simp
  obtain r2 s2 where zm: "getZmanim L s1 d loc0 = (r2, s2)"
    by (cases "getZmanim L s1 d loc0")
  have inv2: "cacheFlagsOff s2"
    using getZmanim_keeps [OF inv1, of L d loc0] zm by simp
  show ?thesis
    using ged zm inv1 inv2 by (cases r1; cases r2) (simp_all add: getAuctionRestrictions_def)
qed

lemma isAuctionPermitted_keeps:
  assumes "cacheFlagsOff s"
  shows "cacheFlagsOff (snd (isAuctionPermitted L s d loc0))"
proof -
  obtain r1 s1 where gar: "getAuctionRestrictions L s d loc0 = (r1, s1)"
    by (cases "getAuctionRestrictions L s d loc0")
  have "cacheFlagsOff s1"
    using getAuctionRestrictions_keeps [OF assms, of L d loc0] gar by simp
  then show ?thesis
    using gar by (cases r1) (simp_all add: isAuctionPermitted_def)
qed

lemma clearCache_keeps: "cacheFlagsOff (clearCache s)"
  by (simp add: clearCache_def cacheFlagsOff_def emptyCache_def)

lemma updateConfig_keeps: "cacheFlagsOff s \<Longrightarrow> cacheFlagsOff (snd (updateConfig s n))"
  by (auto simp: updateConfig_def cacheFlagsOff_def Let_def clearCache_def emptyCache_def
      split: option.splits)

lemma timer_keeps:
  "cacheFlagsOff s \<Longrightarrow> cacheFlagsOff (s\<lparr>cacheOf := cacheDelete k (cacheOf s)\<rparr>)"
  by (cases k) (auto simp: cacheFlagsOff_def split: if_splits)

lemma newService_flags: "newService c = Inr s \<Longrightarrow> cacheFlagsOff s"
  by (auto simp: newService_def cacheFlagsOff_def emptyCache_def split: option.splits)

lemma reachable_flags: "reachable L s \<Longrightarrow> cacheFlagsOff s"
  by (induction rule: reachable.induct)
     (simp_all add: newService_flags service_gregorianToHebrew_keeps
        service_hebrewToGregorian_keeps getEnhancedDate_keeps getZmanim_keeps
        getAuctionRestrictions_keeps isAuctionPermitted_keeps clearCache_keeps
        updateConfig_keeps timer_keeps)

text \<open>
  Through the service the fast-day rule is never reached: in a reachable state, a day
  whose \<open>EnhancedHebrewDate\<close> has \<open>isShabbat\<close> set gets the Shabbat block, also when it is
  Rosh Chodesh.
\<close>

lemma saturday_is_blocked:
  assumes "reachable L s" "getEnhancedDate L s d = (Inr e, s1)" "isShabbat e"
    "fst (getAuctionRestrictions L s d loc0) = Inr r"
  shows "r = shabbatRestrictions"
proof -
  have flags: "holidayFlagsOff e"
    using getEnhancedDate_flags [OF reachable_flags [OF assms(1)] assms(2)] by simp
  obtain r2 s2 where zm: "getZmanim L s1 d loc0 = (r2, s2)"
    by (cases "getZmanim L s1 d loc0")
  show ?thesis
  proof (cases r2)
    case (Inl x)
    then show ?thesis using assms(2,4) zm by (simp add: getAuctionRestrictions_def)
  next
    case (Inr z)
    then have "r = restrictionsOf e z"
      using assms(2,4) zm by (simp add: getAuctionRestrictions_def)
    then show ?thesis
      using restrictionsOf_flags_off [OF flags, of z] assms(3) by simp
  qed
qed


lemma toHebrewNumeral_returns:
  "1 \<le> n \<Longrightarrow> n \<le> 999 \<Longrightarrow> \<exists>str. toHebrewNumeral n = Inr str"
  by (simp add: toHebrewNumeral_def Let_def)

lemma HEBREW_MONTHS_defined:
  "1 \<le> m \<Longrightarrow> m \<le> 13 \<Longrightarrow> \<exists>monthInfo. HEBREW_MONTHS m = Some monthInfo"
  by (simp add: HEBREW_MONTHS_def) arith

lemma gregorianToHebrew_succeeds:
  assumes "newHDate L d = Inr h" "1 \<le> getMonth h" "getMonth h \<le> 13"
    "1 \<le> getDate h" "getDate h \<le> 999"
    "1 \<le> js_rem (getFullYear h) 1000" "js_rem (getFullYear h) 1000 \<le> 999"
  shows "success (gregorianToHebrew L d) \<and> (\<exists>b. hebrewDate (gregorianToHebrew L d) = Some b)"
proof -
  obtain monthInfo where mi: "HEBREW_MONTHS (getMonth h) = Some monthInfo"
    using HEBREW_MONTHS_defined assms(2,3) by blast
  obtain dayStr where ds: "toHebrewNumeral (getDate h) = Inr dayStr"
    using toHebrewNumeral_returns assms(4,5) by blast
  obtain yearStr where ys: "formatHebrewYear (getFullYear h) = Inr yearStr"
    using toHebrewNumeral_returns assms(6,7) unfolding formatHebrewYear_def Let_def by blast
  show ?thesis
    by (simp add: gregorianToHebrew_def gregorianToHebrew_try_def assms(1) mi Let_def
        formatHebrewDateString_def ds ys)
qed

lemma getEnhancedHebrewDate_returns:
  assumes "newHDate L d = Inr h" "1 \<le> getMonth h" "getMonth h \<le> 13"
    "1 \<le> getDate h" "getDate h \<le> 999"
    "1 \<le> js_rem (getFullYear h) 1000" "js_rem (getFullYear h) 1000 \<le> 999"
  shows "\<exists>e. getEnhancedHebrewDate L d = Inr e"
proof -
  obtain b where b: "success (gregorianToHebrew L d)"
      "hebrewDate (gregorianToHebrew L d) = Some b"
    using gregorianToHebrew_succeeds [OF assms] by blast
  show ?thesis
    unfolding getEnhancedHebrewDate_def Let_def by (simp add: b assms(1))
qed

lemma getEnhancedDate_returns:
  assumes "toISOString d = Some k" "newHDate L d = Inr h" "1 \<le> getMonth h" "getMonth h \<le> 13"
    "1 \<le> getDate h" "getDate h \<le> 999"
    "1 \<le> js_rem (getFullYear h) 1000" "js_rem (getFullYear h) 1000 \<le> 999"
  shows "\<exists>e. fst (getEnhancedDate L s d) = Inr e"
proof -
  obtain e where e: "getEnhancedHebrewDate L d = Inr e"
    using getEnhancedHebrewDate_returns [OF assms(2-8)] by blast
  show ?thesis
    unfolding getEnhancedDate_def Let_def
    by (simp add: assms(1) e split: option.splits)
qed

text \<open>
  Claim C9. In every state that a service can reach, and for every library:
  \<^item> \<open>getEnhancedDate\<close> returns a value for every valid date that the library converts to
    a Hebrew date with a month from 1 to 13, a day from 1 to 999 and a year whose
    remainder by 1000 is not 0 (for other dates it throws);
  \<^item> every \<open>EnhancedHebrewDate\<close> that it returns, computed or taken from the cache, has
    \<open>isYomTov\<close>, \<open>isFastDay\<close> and \<open>isCholedMoed\<close> false;
  \<^item> every verdict that \<open>getAuctionRestrictions\<close> returns is the Shabbat block, the Rosh
    Chodesh restriction or the default, never the Yom Tov block or a fast-day
    restriction.
\<close>

theorem holiday_flags_never_set:
  assumes "reachable L s"
  shows "(\<forall>k h. toISOString d = Some k \<and> newHDate L d = Inr h \<and>
               1 \<le> getMonth h \<and> getMonth h \<le> 13 \<and> 1 \<le> getDate h \<and> getDate h \<le> 999 \<and>
               1 \<le> js_rem (getFullYear h) 1000 \<and> js_rem (getFullYear h) 1000 \<le> 999 \<longrightarrow>
            (\<exists>e. fst (getEnhancedDate L s d) = Inr e)) \<and>
         (\<forall>e. fst (getEnhancedDate L s d) = Inr e \<longrightarrow>
            \<not> isYomTov e \<and> \<not> isFastDay e \<and> \<not> isCholedMoed e) \<and>
         (\<forall>r. fst (getAuctionRestrictions L s d loc0) = Inr r \<longrightarrow>
            (r = shabbatRestrictions \<or> r = roshChodeshRestrictions \<or> r = defaultRestrictions) \<and>
            r \<noteq> yomTovRestrictions \<and> (\<forall>z. r \<noteq> fastDayRestrictions z))"
proof -
  have inv: "cacheFlagsOff s" using assms by (rule reachable_flags)
  obtain r1 s1 where ged: "getEnhancedDate L s d = (r1, s1)"
    by (cases "getEnhancedDate L s d")
  have flags: "holidayFlagsOff e" if "r1 = Inr e" for e
    using getEnhancedDate_flags [OF inv, of L d e s1] ged that by simp
  have returns: "\<forall>k h. toISOString d = Some k \<and> newHDate L d = Inr h \<and>
               1 \<le> getMonth h \<and> getMonth h \<le> 13 \<and> 1 \<le> getDate h \<and> getDate h \<le> 999 \<and>
               1 \<le> js_rem (getFullYear h) 1000 \<and> js_rem (getFullYear h) 1000 \<le> 999 \<longrightarrow>
            (\<exists>e. fst (getEnhancedDate L s d) = Inr e)"
    using getEnhancedDate_returns [of d _ L _ s] by blast
  have first: "\<forall>e. fst (getEnhancedDate L s d) = Inr e \<longrightarrow>
            \<not> isYomTov e \<and> \<not> isFastDay e \<and> \<not> isCholedMoed e"
    using flags ged by (simp add: holidayFlagsOff_def)
  have three: "r = shabbatRestrictions \<or> r = roshChodeshRestrictions \<or> r = defaultRestrictions"
    if "fst (getAuctionRestrictions L s d loc0) = Inr r" for r
  proof (cases r1)
    case (Inl x)
    then show ?thesis using that ged by (simp add: getAuctionRestrictions_def)
  next
    case (Inr e)
    obtain r2 s2 where zm: "getZmanim L s1 d loc0 = (r2, s2)"
      by (cases "getZmanim L s1 d loc0")
    show ?thesis
    proof (cases r2)
      case (Inl x)
      then show ?thesis using that ged Inr zm by (simp add: getAuctionRestrictions_def)
    next
      case inr: (Inr z)
      then have "r = restrictionsOf e z"
        using that ged Inr zm by (simp add: getAuctionRestrictions_def)
      then show ?thesis
        using restrictionsOf_flags_off [OF flags [OF Inr], of z] by simp
    qed
  qed
  have others: "r \<noteq> yomTovRestrictions \<and> (\<forall>z. r \<noteq> fastDayRestrictions z)"
    if "fst (getAuctionRestrictions L s d loc0) = Inr r" for r
    using three [OF that] distinct_verdicts by metis
  show ?thesis
    using returns first three others by simp
qed

section \<open>The model on the stand-in library\<close>

lemma testService_new: "newService (testConfig enabled) = Inr (testService enabled)"
  by (simp add: newService_def validateConfig_def testConfig_def testService_def jerusalem_def
      ascii_def)

lemma testService_reachable: "reachable L (testService enabled)"
  by (rule reachable.constructed [OF testService_new])

lemma newHDate_roshChodesh:
  "newHDate testLibrary (roshChodeshAt t)
     = Inr \<lparr>getDate = 1, getMonth = 13, getFullYear = 5784\<rparr>"
  by (simp add: testLibrary_def roshChodeshAt_def makeDate_def ascii_def)

lemma toHebrewNumeral_1: "toHebrewNumeral 1 = Inr [ALEF, GERESH]"
  by (simp add: toHebrewNumeral_def ones_def)

lemma js_rem_5784: "js_rem 5784 1000 = 784"
  by (simp add: js_rem_def)

lemma toHebrewNumeral_784:
  "toHebrewNumeral 784 = Inr [TAV, SHIN, GERESH, PE, GERSHAYIM, DALET, GERESH]"
  by (simp add: toHebrewNumeral_def hundreds_def tens_def ones_def)

lemma formatHebrewYear_5784:
  "formatHebrewYear 5784 = Inr [TAV, SHIN, GERESH, PE, GERSHAYIM, DALET, GERESH]"
  by (simp add: formatHebrewYear_def js_rem_5784 toHebrewNumeral_784)

lemma gregorianToHebrew_roshChodesh:
  "success (gregorianToHebrew testLibrary (roshChodeshAt t)) \<and>
   (\<exists>h. hebrewDate (gregorianToHebrew testLibrary (roshChodeshAt t)) = Some h)"
  by (simp add: gregorianToHebrew_def gregorianToHebrew_try_def newHDate_roshChodesh
      HEBREW_MONTHS_def formatHebrewDateString_def toHebrewNumeral_1 formatHebrewYear_5784)

lemma getDay_roshChodesh: "getDay (roshChodeshAt t) = Some 1"
  by (simp add: roshChodeshAt_def makeDate_def)

lemma getEnhancedHebrewDate_roshChodesh:
  "case getEnhancedHebrewDate testLibrary (roshChodeshAt t) of
     Inl x \<Rightarrow> False
   | Inr e \<Rightarrow> isRoshChodesh e \<and> \<not> isShabbat e"
proof -
  obtain h where h: "success (gregorianToHebrew testLibrary (roshChodeshAt t))"
      "hebrewDate (gregorianToHebrew testLibrary (roshChodeshAt t)) = Some h"
    using gregorianToHebrew_roshChodesh [of t] by blast
  show ?thesis
    unfolding getEnhancedHebrewDate_def Let_def
    by (simp add: h newHDate_roshChodesh getDay_roshChodesh)
qed

lemma toISOString_roshChodesh:
  "toISOString (roshChodeshAt t) = Some (ascii (''2024-03-11T'' @ t @ '':00.000Z''))"
  by (simp add: roshChodeshAt_def makeDate_def)

lemma getEnhancedDate_roshChodesh:
  "case fst (getEnhancedDate testLibrary (testService b) (roshChodeshAt t)) of
     Inl x \<Rightarrow> False
   | Inr e \<Rightarrow> isRoshChodesh e \<and> \<not> isShabbat e"
  using getEnhancedHebrewDate_roshChodesh [of t]
  unfolding getEnhancedDate_def Let_def
  by (simp add: toISOString_roshChodesh testService_def emptyCache_def enrichWithHolidayInfo_def
      split: sum.splits)

lemma getZmanim_returns:
  "newZmanim L d (case loc0 of Some l \<Rightarrow> l | None \<Rightarrow> defaultLocation (config s)) = Inr z \<Longrightarrow>
   \<exists>r. fst (getZmanim L s d loc0) = Inr r"
  unfolding getZmanim_def Let_def
  by (simp split: option.splits sum.splits)






lemma getAuctionRestrictions_roshChodesh:
  "fst (getAuctionRestrictions testLibrary (testService b) (roshChodeshAt t) None)
     = Inr roshChodeshRestrictions"
proof -
  let ?d = "roshChodeshAt t"
  obtain r1 s1 where ged: "getEnhancedDate testLibrary (testService b) ?d = (r1, s1)"
    by (cases "getEnhancedDate testLibrary (testService b) ?d")
  obtain e where e: "r1 = Inr e" "isRoshChodesh e" "\<not> isShabbat e"
    using getEnhancedDate_roshChodesh [of b t] ged by (cases r1) simp_all
  have flags: "holidayFlagsOff e"
    using getEnhancedDate_flags [of "testService b" testLibrary ?d e s1] ged e
    by (simp add: cacheFlagsOff_def testService_def emptyCache_def)
  have "newZmanim testLibrary ?d
          (case None of Some l \<Rightarrow> l | None \<Rightarrow> defaultLocation (config s1)) = Inr testZmanim"
    by (simp add: testLibrary_def)
  then obtain z where z: "fst (getZmanim testLibrary s1 ?d None) = Inr z"
    using getZmanim_returns by blast
  obtain s2 where s2: "getZmanim testLibrary s1 ?d None = (Inr z, s2)"
    using z by (cases "getZmanim testLibrary s1 ?d None") simp
  have "fst (getAuctionRestrictions testLibrary (testService b) ?d None)
          = Inr (restrictionsOf e z)"
    by (simp add: getAuctionRestrictions_def ged e s2)
  then show ?thesis
    using restrictionsOf_flags_off [OF flags, of z] e by simp
qed

theorem holiday_flags_never_set_witness:
  "reachable testLibrary (testService True) \<and>
   toISOString (roshChodeshAt ''07:00'') = Some (ascii ''2024-03-11T07:00:00.000Z'') \<and>
   newHDate testLibrary (roshChodeshAt ''07:00'')
     = Inr \<lparr>getDate = 1, getMonth = 13, getFullYear = 5784\<rparr> \<and>
   js_rem 5784 1000 = 784 \<and>
   (\<exists>e. fst (getEnhancedDate testLibrary (testService True) (roshChodeshAt ''07:00'')) = Inr e \<and>
        \<not> isYomTov e \<and> \<not> isFastDay e \<and> \<not> isCholedMoed e) \<and>
   fst (getAuctionRestrictions testLibrary (testService True) (roshChodeshAt ''07:00'') None)
     = Inr roshChodeshRestrictions \<and>
   roshChodeshRestrictions \<noteq> yomTovRestrictions \<and>
   (\<forall>z. roshChodeshRestrictions \<noteq> fastDayRestrictions z)"
proof -
  let ?s = "testService True" and ?d = "roshChodeshAt ''07:00''"
  let ?h = "\<lparr>getDate = 1, getMonth = 13, getFullYear = 5784\<rparr>"
  have reach: "reachable testLibrary ?s" by (rule testService_reachable)
  have iso: "toISOString ?d = Some (ascii ''2024-03-11T07:00:00.000Z'')"
    by (simp add: toISOString_roshChodesh)
  have hd: "newHDate testLibrary ?d = Inr ?h" by (rule newHDate_roshChodesh)
  have verdict: "fst (getAuctionRestrictions testLibrary ?s ?d None) = Inr roshChodeshRestrictions"
    by (rule getAuctionRestrictions_roshChodesh)
  note inst = holiday_flags_never_set [OF reach, of ?d None]
  have "\<exists>e. fst (getEnhancedDate testLibrary ?s ?d) = Inr e"
    using inst iso hd js_rem_5784 by simp
  then show ?thesis
    using inst reach iso hd js_rem_5784 verdict by blast
qed

section \<open>Properties of the permission check\<close>

lemma checkRestrictedHours_permitted_iff:
  "permitted (checkRestrictedHours t ws) =
     (\<not> (\<exists>w\<in>set ws. isTimeBetween t (startTime w) (endTime w)))"
  by (induction ws) (auto simp: auctionsPermitted_def)

lemma checkRestrictedHours_denied_reason:
  "\<not> permitted (checkRestrictedHours t ws) \<Longrightarrow>
   \<exists>w\<in>set ws. isTimeBetween t (startTime w) (endTime w) \<and>
     reason (checkRestrictedHours t ws) = description w \<and>
     reasonHebrew (checkRestrictedHours t ws) = descriptionHebrew w"
  by (induction ws) (auto simp: auctionsPermitted_def split: if_splits)

lemma checkRestrictedHours_permitted:
  "permitted (checkRestrictedHours t ws) \<Longrightarrow> checkRestrictedHours t ws = auctionsPermitted"
  by (induction ws) (auto split: if_splits)

lemma isAuctionPermitted_fst:
  "fst (isAuctionPermitted L s dateTime loc0) =
     map_sum id (\<lambda>r. permissionOf r dateTime) (fst (getAuctionRestrictions L s dateTime loc0))"
  by (cases "getAuctionRestrictions L s dateTime loc0")
     (auto simp: isAuctionPermitted_def split: sum.splits)

lemma js_le_digits:
  "b1 < 10 \<Longrightarrow> b2 < 10 \<Longrightarrow> c1 < 6 \<Longrightarrow> c2 < 6 \<Longrightarrow> d1 < 10 \<Longrightarrow> d2 < 10 \<Longrightarrow>
   js_le [48 + a1, 48 + b1, 0x3A, 48 + c1, 48 + d1] [48 + a2, 48 + b2, 0x3A, 48 + c2, 48 + d2]
     = (60 * (10 * a1 + b1) + (10 * c1 + d1) \<le> 60 * (10 * a2 + b2) + (10 * c2 + d2))"
  for a1 a2 b1 b2 c1 c2 d1 d2 :: nat
  by simp

text \<open>On clock times the string order is the order of the minutes since midnight.\<close>

lemma js_le_clockTime:
  assumes "m1 < 60" "m2 < 60"
  shows "js_le (clockTime h1 m1) (clockTime h2 m2) = (60 * h1 + m1 \<le> 60 * h2 + m2)"
proof -
  have tens: "m1 div 10 < 6" "m2 div 10 < 6" using assms by simp_all
  have "js_le (clockTime h1 m1) (clockTime h2 m2) =
     (60 * (10 * (h1 div 10) + h1 mod 10) + (10 * (m1 div 10) + m1 mod 10)
       \<le> 60 * (10 * (h2 div 10) + h2 mod 10) + (10 * (m2 div 10) + m2 mod 10))"
    unfolding clockTime_def by (rule js_le_digits) (use tens in simp_all)
  then show ?thesis by simp
qed

lemma isTimeBetween_clockTime:
  "m < 60 \<Longrightarrow> ms < 60 \<Longrightarrow> me < 60 \<Longrightarrow>
   isTimeBetween (clockTime h m) (clockTime hs ms) (clockTime he me)
     = (60 * hs + ms \<le> 60 * h + m \<and> 60 * h + m \<le> 60 * he + me)"
  by (simp add: isTimeBetween_def js_le_clockTime) (simp add: clockTime_def)

text \<open>
  Claim C6. What \<open>isAuctionPermitted\<close> returns is \<open>permissionOf\<close> of the restrictions
  that \<open>getAuctionRestrictions\<close> returns for the same arguments (and it throws what that
  call throws). For restrictions \<open>r\<close> and an instant \<open>dateTime\<close>:
  \<^item> when \<open>noAuctions\<close> is set, the answer is a denial with the day's two reasons;
  \<^item> otherwise the answer is a denial exactly when the clock time of the instant (the
    first five code units of its time string) lies within some restricted window, and
    then the reasons are those of such a window; when it lies within no window the
    answer is the permission.

  A clock time lies within a window, as \<open>isTimeBetween\<close> decides it, when both bounds
  contain a colon and the time is between them in string order. For bounds and a time
  of the form \<open>HH:MM\<close> that is the order of the minutes since midnight; a window with a
  bound that has no colon (the names \<open>shacharit\<close> and \<open>after_hallel\<close> of the Rosh
  Chodesh window) contains no time.
\<close>

theorem isAuctionPermitted_decision:
  "fst (isAuctionPermitted L s dateTime loc0) =
     map_sum id (\<lambda>r. permissionOf r dateTime) (fst (getAuctionRestrictions L s dateTime loc0)) \<and>
   (noAuctions r \<longrightarrow>
      permissionOf r dateTime =
        \<lparr>permitted = False, reason = specialConsiderations r,
         reasonHebrew = specialConsiderationsHebrew r\<rparr>) \<and>
   (\<not> noAuctions r \<longrightarrow>
      permitted (permissionOf r dateTime) =
        (\<not> (\<exists>w\<in>set (restrictedHours r).
               isTimeBetween (take 5 (toTimeString dateTime)) (startTime w) (endTime w))) \<and>
      (\<not> permitted (permissionOf r dateTime) \<longrightarrow>
         (\<exists>w\<in>set (restrictedHours r).
            isTimeBetween (take 5 (toTimeString dateTime)) (startTime w) (endTime w) \<and>
            reason (permissionOf r dateTime) = description w \<and>
            reasonHebrew (permissionOf r dateTime) = descriptionHebrew w)) \<and>
      (permitted (permissionOf r dateTime) \<longrightarrow> permissionOf r dateTime = auctionsPermitted)) \<and>
   (m < 60 \<and> ms < 60 \<and> me < 60 \<longrightarrow>
      isTimeBetween (clockTime h m) (clockTime hs ms) (clockTime he me)
        = (60 * hs + ms \<le> 60 * h + m \<and> 60 * h + m \<le> 60 * he + me)) \<and>
   (0x3A \<notin> set a \<or> 0x3A \<notin> set b \<longrightarrow> \<not> isTimeBetween t a b)"
proof -
  have named: "0x3A \<notin> set a \<or> 0x3A \<notin> set b \<longrightarrow> \<not> isTimeBetween t a b"
    by (auto simp: isTimeBetween_def)
  have blocked: "noAuctions r \<longrightarrow>
      permissionOf r dateTime =
        \<lparr>permitted = False, reason = specialConsiderations r,
         reasonHebrew = specialConsiderationsHebrew r\<rparr>"
    by (simp add: permissionOf_def)
  have partial: "\<not> noAuctions r \<Longrightarrow>
      permissionOf r dateTime =
        checkRestrictedHours (take 5 (toTimeString dateTime)) (restrictedHours r)"
    by (simp add: permissionOf_def Let_def)
  show ?thesis
    using isAuctionPermitted_fst [of L s dateTime loc0] blocked named
      isTimeBetween_clockTime [of m ms me h hs he]
      checkRestrictedHours_permitted_iff [of "take 5 (toTimeString dateTime)" "restrictedHours r"]
      checkRestrictedHours_denied_reason [of "take 5 (toTimeString dateTime)" "restrictedHours r"]
      checkRestrictedHours_permitted [of "take 5 (toTimeString dateTime)" "restrictedHours r"]
      partial
    by auto
qed

lemma clock_of_roshChodeshAt:
  "take 5 (toTimeString (roshChodeshAt ''12:00'')) = clockTime 12 0 \<and>
   take 5 (toTimeString (roshChodeshAt ''20:00'')) = clockTime 20 0 \<and>
   take 5 (toTimeString (roshChodeshAt ''04:33'')) = clockTime 4 33 \<and>
   take 5 (toTimeString (roshChodeshAt ''18:19'')) = clockTime 18 19"
  by (simp add: roshChodeshAt_def makeDate_def ascii_def clockTime_def)

lemma fastDay_window:
  "restrictedHours (fastDayRestrictions (zmanimResult jerusalem d testZmanim)) =
     [\<lparr>startTime = clockTime 4 33, endTime = clockTime 18 19,
       description = ascii ''Sensitive timing during fast day'',
       descriptionHebrew = [AYIN, YOD, TAV, VAV, YOD, 0x20, RESH, GIMEL, YOD, SHIN, 0x20, BET,
         YOD, VAV, FINAL_MEM, 0x20, TSADI, VAV, FINAL_MEM]\<rparr>] \<and>
   \<not> noAuctions (fastDayRestrictions (zmanimResult jerusalem d testZmanim))"
  using clock_of_roshChodeshAt
  by (simp add: fastDayRestrictions_def zmanimResult_def testZmanim_def)

theorem isAuctionPermitted_decision_witness:
  "fst (isAuctionPermitted testLibrary (testService True) (roshChodeshAt ''12:00'') None)
     = Inr auctionsPermitted \<and>
   noAuctions shabbatRestrictions \<and>
   permissionOf shabbatRestrictions (roshChodeshAt ''12:00'') =
     \<lparr>permitted = False, reason = specialConsiderations shabbatRestrictions,
      reasonHebrew = specialConsiderationsHebrew shabbatRestrictions\<rparr> \<and>
   \<not> noAuctions (fastDayRestrictions (zmanimResult jerusalem (roshChodeshAt ''12:00'') testZmanim)) \<and>
   isTimeBetween (clockTime 12 0) (clockTime 4 33) (clockTime 18 19) \<and>
   \<not> permitted (permissionOf (fastDayRestrictions (zmanimResult jerusalem (roshChodeshAt ''12:00'') testZmanim))
                  (roshChodeshAt ''12:00'')) \<and>
   reason (permissionOf (fastDayRestrictions (zmanimResult jerusalem (roshChodeshAt ''12:00'') testZmanim))
             (roshChodeshAt ''12:00'')) = ascii ''Sensitive timing during fast day'' \<and>
   \<not> isTimeBetween (clockTime 20 0) (clockTime 4 33) (clockTime 18 19) \<and>
   permissionOf (fastDayRestrictions (zmanimResult jerusalem (roshChodeshAt ''12:00'') testZmanim))
     (roshChodeshAt ''20:00'') = auctionsPermitted \<and>
   \<not> isTimeBetween (clockTime 12 0) (ascii ''shacharit'') (ascii ''after_hallel'')"
  (is "?facade \<and> ?sh1 \<and> ?sh2 \<and> ?fd0 \<and> ?in12 \<and> ?deny \<and> ?why \<and> ?out20 \<and> ?allow \<and> ?named")
proof -
  let ?fast = "fastDayRestrictions (zmanimResult jerusalem (roshChodeshAt ''12:00'') testZmanim)"
  let ?noon = "roshChodeshAt ''12:00''" and ?evening = "roshChodeshAt ''20:00''"
  note clock = clock_of_roshChodeshAt
  note window = fastDay_window [of "roshChodeshAt ''12:00''"]
  have named: ?named
    using isAuctionPermitted_decision [of _ _ _ _ _ _ _ _ _ _ _ "ascii ''shacharit''"
        "ascii ''after_hallel''" "clockTime 12 0"]
    by (simp add: ascii_def)
  have rc: "permissionOf roshChodeshRestrictions ?noon = auctionsPermitted"
  proof -
    have "\<not> (\<exists>w\<in>set (restrictedHours roshChodeshRestrictions).
               isTimeBetween (take 5 (toTimeString ?noon)) (startTime w) (endTime w))"
      using named clock by (simp add: roshChodeshRestrictions_def)
    then show ?thesis
      using isAuctionPermitted_decision [of _ _ ?noon _ roshChodeshRestrictions]
      by (simp add: roshChodeshRestrictions_def)
  qed
  have facade: ?facade
    using isAuctionPermitted_decision [of testLibrary "testService True" ?noon None]
      getAuctionRestrictions_roshChodesh [of True "''12:00''"] rc
    by simp
  have sh1: ?sh1 by (simp add: shabbatRestrictions_def)
  have sh2: ?sh2
    using isAuctionPermitted_decision [of _ _ ?noon _ shabbatRestrictions] sh1 by simp
  have in12: ?in12
    using isAuctionPermitted_decision [of _ _ _ _ _ 0 33 19 12 4 18] by simp
  have out20: ?out20
    using isAuctionPermitted_decision [of _ _ _ _ _ 0 33 19 20 4 18] by simp
  have deny: ?deny
    using isAuctionPermitted_decision [of _ _ ?noon _ ?fast] window clock in12 by simp
  have why: ?why
    using isAuctionPermitted_decision [of _ _ ?noon _ ?fast] window deny by auto
  have allow: ?allow
    using isAuctionPermitted_decision [of _ _ ?evening _ ?fast] window clock out20 by simp
  show ?thesis
    using facade sh1 sh2 window in12 deny why out20 allow named by blast
qed

section \<open>The cache of the zmanim\<close>

lemma getZmanim_miss:
  assumes "\<not> cacheEnabled (config s) \<or>
           zmanimTimes (cacheOf s) (toDateString d, latitude loc, longitude loc) = None"
  shows "fst (getZmanim L s d (Some loc)) =
           (case newZmanim L d loc of
              Inl e \<Rightarrow> Inl (zmanimFailed e)
            | Inr z \<Rightarrow> Inr (zmanimResult loc d z))"
  using assms unfolding getZmanim_def Let_def
  by (auto split: sum.splits option.splits)

lemma getZmanim_stores:
  assumes "cacheEnabled (config s)"
    "zmanimTimes (cacheOf s) (toDateString d, latitude loc, longitude loc) = None"
    "newZmanim L d loc = Inr z"
  shows "zmanimTimes (cacheOf (snd (getZmanim L s d (Some loc))))
            (toDateString d, latitude loc, longitude loc) = Some (zmanimResult loc d z) \<and>
         cacheEnabled (config (snd (getZmanim L s d (Some loc))))"
  using assms unfolding getZmanim_def Let_def
  by (auto split: sum.splits option.splits)

lemma getZmanim_hit:
  assumes "cacheEnabled (config s)"
    "zmanimTimes (cacheOf s) (toDateString d, latitude loc, longitude loc) = Some cached"
  shows "fst (getZmanim L s d (Some loc)) = Inr cached"
  using assms unfolding getZmanim_def Let_def
  by (auto split: sum.splits option.splits)

lemma zmanimResult_differs:
  "d2 \<noteq> d1 \<or> name locB \<noteq> name locA \<or> timezone locB \<noteq> timezone locA \<Longrightarrow>
   zmanimResult locB d2 z2 \<noteq> zmanimResult locA d1 z1"
  by (auto simp: zmanimResult_def)

text \<open>
  Claim C8 (the code departs from it). Let a service with the cache enabled compute the
  zmanim of an instant \<open>d1\<close> at a location \<open>locA\<close>. A later call for an instant \<open>d2\<close> of
  the same calendar day at a location \<open>locB\<close> of the same latitude and longitude gets the
  stored result of the first call. When the two instants differ, or the names or the time
  zones of the two locations do, a service with the cache disabled returns something
  else for that call (the result carries the instant, the name and the time zone of its
  own arguments), whatever the library is.
\<close>

theorem getZmanim_cache_changes_result:
  assumes "cacheEnabled (config s)"
    and "zmanimTimes (cacheOf s) (toDateString d1, latitude locA, longitude locA) = None"
    and "newZmanim L d1 locA = Inr z"
    and "toDateString d2 = toDateString d1"
    and "latitude locB = latitude locA" and "longitude locB = longitude locA"
    and "d2 \<noteq> d1 \<or> name locB \<noteq> name locA \<or> timezone locB \<noteq> timezone locA"
    and "\<not> cacheEnabled (config s')"
  shows "fst (getZmanim L (snd (getZmanim L s d1 (Some locA))) d2 (Some locB))
           = Inr (zmanimResult locA d1 z) \<and>
         fst (getZmanim L s' d2 (Some locB))
           \<noteq> fst (getZmanim L (snd (getZmanim L s d1 (Some locA))) d2 (Some locB))"
proof -
  let ?s1 = "snd (getZmanim L s d1 (Some locA))"
  have stored: "zmanimTimes (cacheOf ?s1) (toDateString d2, latitude locB, longitude locB)
                  = Some (zmanimResult locA d1 z)" "cacheEnabled (config ?s1)"
    using getZmanim_stores [OF assms(1,2,3)] assms(4,5,6) by simp_all
  have cached: "fst (getZmanim L ?s1 d2 (Some locB)) = Inr (zmanimResult locA d1 z)"
    by (rule getZmanim_hit [OF stored(2) stored(1)])
  have fresh: "fst (getZmanim L s' d2 (Some locB)) =
           (case newZmanim L d2 locB of
              Inl e \<Rightarrow> Inl (zmanimFailed e)
            | Inr z2 \<Rightarrow> Inr (zmanimResult locB d2 z2))"
    by (rule getZmanim_miss) (simp add: assms(8))
  have "fst (getZmanim L s' d2 (Some locB)) \<noteq> Inr (zmanimResult locA d1 z)"
    using fresh zmanimResult_differs [OF assms(7)] by (cases "newZmanim L d2 locB") simp_all
  then show ?thesis using cached by simp
qed

lemma roshChodeshAt_differ: "roshChodeshAt ''20:00'' \<noteq> roshChodeshAt ''08:00''"
  by (simp add: roshChodeshAt_def makeDate_def ascii_def)

theorem getZmanim_cache_changes_result_witness:
  "cacheEnabled (config (testService True)) \<and>
   \<not> cacheEnabled (config (testService False)) \<and>
   toDateString (roshChodeshAt ''20:00'') = toDateString (roshChodeshAt ''08:00'') \<and>
   roshChodeshAt ''20:00'' \<noteq> roshChodeshAt ''08:00'' \<and>
   fst (getZmanim testLibrary
          (snd (getZmanim testLibrary (testService True) (roshChodeshAt ''08:00'')
                  (Some jerusalem)))
          (roshChodeshAt ''20:00'') (Some jerusalem))
     = Inr (zmanimResult jerusalem (roshChodeshAt ''08:00'') testZmanim) \<and>
   fst (getZmanim testLibrary (testService False) (roshChodeshAt ''20:00'') (Some jerusalem))
     \<noteq> fst (getZmanim testLibrary
              (snd (getZmanim testLibrary (testService True) (roshChodeshAt ''08:00'')
                      (Some jerusalem)))
              (roshChodeshAt ''20:00'') (Some jerusalem))"
proof -
  let ?d1 = "roshChodeshAt ''08:00''" and ?d2 = "roshChodeshAt ''20:00''"
  have on: "cacheEnabled (config (testService True))"
    and off: "\<not> cacheEnabled (config (testService False))"
    by (simp_all add: testService_def testConfig_def)
  have empty: "zmanimTimes (cacheOf (testService True))
                 (toDateString ?d1, latitude jerusalem, longitude jerusalem) = None"
    by (simp add: testService_def emptyCache_def)
  have lib: "newZmanim testLibrary ?d1 jerusalem = Inr testZmanim"
    by (simp add: testLibrary_def)
  have day: "toDateString ?d2 = toDateString ?d1"
    by (simp add: roshChodeshAt_def makeDate_def)
  have differ: "?d2 \<noteq> ?d1 \<or> name jerusalem \<noteq> name jerusalem
                  \<or> timezone jerusalem \<noteq> timezone jerusalem"
    using roshChodeshAt_differ by simp
  note inst = getZmanim_cache_changes_result [OF on empty lib day refl refl differ off]
  have cached: "fst (getZmanim testLibrary
          (snd (getZmanim testLibrary (testService True) ?d1 (Some jerusalem)))
          ?d2 (Some jerusalem)) = Inr (zmanimResult jerusalem ?d1 testZmanim)"
    using inst by (rule conjunct1)
  have fresh: "fst (getZmanim testLibrary (testService False) ?d2 (Some jerusalem))
     \<noteq> fst (getZmanim testLibrary
              (snd (getZmanim testLibrary (testService True) ?d1 (Some jerusalem)))
              ?d2 (Some jerusalem))"
    using inst by (rule conjunct2)
  show ?thesis
    using on off day roshChodeshAt_differ cached fresh by blast
qed

section \<open>What the conversions add to the library\<close>

text \<open>
  \<open>hebrewToGregorian\<close> succeeds exactly when the library's constructor and \<open>greg()\<close>
  return, the month is a key of \<open>HEBREW_MONTHS\<close>, the day is in the range of
  \<open>toHebrewNumeral\<close> and the remainder of the year by 1000 is. It makes no other check of
  the date.
\<close>

lemma toHebrewNumeral_Inl_iff: "(\<exists>e. toHebrewNumeral n = Inl e) = (n < 1 \<or> 999 < n)"
  by (auto simp: toHebrewNumeral_def Let_def)

lemma HEBREW_MONTHS_None_iff: "(HEBREW_MONTHS m = None) = (m < 1 \<or> 13 < m)"
  by (simp add: HEBREW_MONTHS_def) arith

lemma formatHebrewDateString_Inl_iff:
  "(\<exists>e. formatHebrewDateString day mn year = Inl e) =
     (day < 1 \<or> 999 < day \<or> js_rem year 1000 < 1 \<or> 999 < js_rem year 1000)"
  using toHebrewNumeral_Inl_iff [of day] toHebrewNumeral_Inl_iff [of "js_rem year 1000"]
  by (cases "toHebrewNumeral day"; cases "toHebrewNumeral (js_rem year 1000)")
     (auto simp: formatHebrewDateString_def formatHebrewYear_def Let_def)

lemma hebrewToGregorian_succeeds_iff:
  "success (hebrewToGregorian L day month year) =
     ((\<exists>h g. newHDateHebrew L day month year = Inr h \<and> greg L h = Inr g) \<and>
      1 \<le> month \<and> month \<le> 13 \<and> 1 \<le> day \<and> day \<le> 999 \<and>
      1 \<le> js_rem year 1000 \<and> js_rem year 1000 \<le> 999)"
proof (cases "newHDateHebrew L day month year")
  case (Inl e)
  then show ?thesis
    by (simp add: hebrewToGregorian_def hebrewToGregorian_try_def failure_def)
next
  case h: (Inr h)
  show ?thesis
  proof (cases "greg L h")
    case (Inl e)
    then show ?thesis
      using h by (simp add: hebrewToGregorian_def hebrewToGregorian_try_def failure_def)
  next
    case g: (Inr g)
    show ?thesis
    proof (cases "HEBREW_MONTHS month")
      case None
      then show ?thesis
        using h g HEBREW_MONTHS_None_iff [of month]
        by (auto simp: hebrewToGregorian_def hebrewToGregorian_try_def failure_def)
    next
      case (Some monthInfo)
      then have range: "1 \<le> month \<and> month \<le> 13"
        using HEBREW_MONTHS_None_iff [of month] by auto
      show ?thesis
      proof (cases "formatHebrewDateString day (fst monthInfo) year")
        case (Inl e)
        then have "day < 1 \<or> 999 < day \<or> js_rem year 1000 < 1 \<or> 999 < js_rem year 1000"
          using formatHebrewDateString_Inl_iff [of day "fst monthInfo" year] by blast
        then show ?thesis
          using h g Some Inl
          by (auto simp: hebrewToGregorian_def hebrewToGregorian_try_def failure_def)
      next
        case (Inr str)
        then have "\<not> (day < 1 \<or> 999 < day \<or> js_rem year 1000 < 1 \<or> 999 < js_rem year 1000)"
          using formatHebrewDateString_Inl_iff [of day "fst monthInfo" year] by auto
        then show ?thesis
          using h g Some Inr range
          by (auto simp: hebrewToGregorian_def hebrewToGregorian_try_def)
      qed
    qed
  qed
qed

lemma gregorianToHebrew_of_library:
  assumes "newHDate L d = Inr h" "1 \<le> getMonth h" "getMonth h \<le> 13"
    "1 \<le> getDate h" "getDate h \<le> 999"
    "1 \<le> js_rem (getFullYear h) 1000" "js_rem (getFullYear h) 1000 \<le> 999"
  shows "\<exists>b monthInfo. hebrewDate (gregorianToHebrew L d) = Some b \<and>
           HEBREW_MONTHS (getMonth h) = Some monthInfo \<and>
           hebrewDay b = getDate h \<and> hebrewMonth b = fst monthInfo \<and>
           hebrewYear b = getFullYear h"
proof -
  obtain monthInfo where mi: "HEBREW_MONTHS (getMonth h) = Some monthInfo"
    using HEBREW_MONTHS_None_iff [of "getMonth h"] assms(2,3) by fastforce
  obtain str where str: "formatHebrewDateString (getDate h) (fst monthInfo) (getFullYear h) = Inr str"
    using formatHebrewDateString_Inl_iff [of "getDate h" "fst monthInfo" "getFullYear h"] assms(4-7)
    by (cases "formatHebrewDateString (getDate h) (fst monthInfo) (getFullYear h)") auto
  show ?thesis
    by (simp add: gregorianToHebrew_def gregorianToHebrew_try_def assms(1) mi str Let_def)
qed

text \<open>
  Where the library's two constructors and \<open>greg()\<close> invert one another at a date whose
  day, month and year can be formatted, the round trip through the two conversions of the
  package gives the day, the name of the month and the year back.
\<close>

lemma round_trip_when_library_inverts:
  assumes "newHDateHebrew L day month year = Inr h" "greg L h = Inr g"
    and "newHDate L g = Inr \<lparr>getDate = day, getMonth = month, getFullYear = year\<rparr>"
    and "1 \<le> month" "month \<le> 13" "1 \<le> day" "day \<le> 999"
    and "1 \<le> js_rem year 1000" "js_rem year 1000 \<le> 999"
  shows "convertedDate (hebrewToGregorian L day month year) = Some g \<and>
         (\<exists>b monthInfo. hebrewDate (gregorianToHebrew L g) = Some b \<and>
            HEBREW_MONTHS month = Some monthInfo \<and>
            hebrewDay b = day \<and> hebrewMonth b = fst monthInfo \<and> hebrewYear b = year)"
proof -
  have "success (hebrewToGregorian L day month year)"
    using hebrewToGregorian_succeeds_iff [of L day month year] assms by simp
  then have there: "convertedDate (hebrewToGregorian L day month year) = Some g"
    using assms(1,2)
    by (auto simp: hebrewToGregorian_def hebrewToGregorian_try_def failure_def
        split: sum.splits option.splits)
  show ?thesis
    using there gregorianToHebrew_of_library [OF assms(3)] assms(4-9) by simp
qed

section \<open>Years that are multiples of 1000\<close>

lemma formatHebrewYear_millennial:
  assumes "0 < year" "year mod 1000 = 0"
  shows "formatHebrewYear year = Inl (out_of_range 0)"
proof -
  have "js_rem year 1000 = 0" using assms by (simp add: js_rem_def)
  then show ?thesis by (simp add: formatHebrewYear_def toHebrewNumeral_def)
qed

lemma formatHebrewDateString_millennial:
  "0 < year \<Longrightarrow> year mod 1000 = 0 \<Longrightarrow> formatHebrewDateString day mn year \<noteq> Inr x"
  by (simp add: formatHebrewDateString_def formatHebrewYear_millennial split: sum.splits)

lemma hebrewToGregorian_millennial:
  assumes "0 < year" "year mod 1000 = 0"
  shows "\<not> success (hebrewToGregorian L day month year) \<and>
         convertedDate (hebrewToGregorian L day month year) = None"
proof -
  have "hebrewToGregorian_try L day month year \<noteq> Inr r" for r
    using formatHebrewDateString_millennial [OF assms]
    unfolding hebrewToGregorian_try_def
    by (simp split: sum.splits option.splits)
  then show ?thesis
    by (cases "hebrewToGregorian_try L day month year")
       (auto simp: hebrewToGregorian_def failure_def)
qed

lemma gregorianToHebrew_millennial:
  assumes "newHDate L d = Inr h" "0 < getFullYear h" "getFullYear h mod 1000 = 0"
  shows "\<not> success (gregorianToHebrew L d)"
proof -
  have "gregorianToHebrew_try L d \<noteq> Inr r" for r
    using formatHebrewDateString_millennial [OF assms(2,3)] assms(1)
    unfolding gregorianToHebrew_try_def Let_def
    by (simp split: sum.splits option.splits)
  then show ?thesis
    by (cases "gregorianToHebrew_try L d") (auto simp: gregorianToHebrew_def failure_def)
qed

lemma js_rem_nonneg: "0 \<le> a \<Longrightarrow> js_rem a 1000 = a mod 1000"
  by (cases "a = 0") (simp_all add: js_rem_def)

section \<open>The round trip of a valid date\<close>

text \<open>
  Whether a date is valid is the library's answer: \<open>isValidHebrewDate\<close> checks the signs
  and the month range itself and asks the library for the leap year and the length of the
  month; when the library throws there, no date is valid.
\<close>

lemma isValidHebrewDate_needs_library:
  "daysInMonth L month year = Inl e \<Longrightarrow> \<not> isValidHebrewDate L day month year"
  by (auto simp: isValidHebrewDate_def getDaysInHebrewMonth_def split: sum.splits)








section \<open>The year of the display string\<close>

text \<open>
  Claim C10. For every year whose remainder by 1000 (the \<open>%\<close> of the code) is from 1
  to 999, \<open>formatHebrewYear\<close> is \<open>toHebrewNumeral\<close> of that remainder and returns a
  string; for a year that is not negative the remainder is \<open>year mod 1000\<close>. For every
  positive year that is a multiple of 1000 it throws the out-of-range error for 0; then
  \<open>hebrewToGregorian\<close> fails for that year, and \<open>gregorianToHebrew\<close> fails for every date
  that the library places in that year.
\<close>

theorem formatHebrewYear_residue:
  "(1 \<le> js_rem year 1000 \<and> js_rem year 1000 \<le> 999 \<longrightarrow>
      formatHebrewYear year = toHebrewNumeral (js_rem year 1000) \<and>
      (\<exists>str. formatHebrewYear year = Inr str)) \<and>
   (0 \<le> year \<longrightarrow> js_rem year 1000 = year mod 1000) \<and>
   (0 \<le> year \<and> 1 \<le> year mod 1000 \<longrightarrow>
      formatHebrewYear year = toHebrewNumeral (year mod 1000) \<and>
      (\<exists>str. formatHebrewYear year = Inr str)) \<and>
   (0 < year \<and> year mod 1000 = 0 \<longrightarrow>
      formatHebrewYear year = Inl (out_of_range 0) \<and>
      (\<forall>L day month. \<not> success (hebrewToGregorian L day month year)) \<and>
      (\<forall>L d h. newHDate L d = Inr h \<and> getFullYear h = year \<longrightarrow>
         \<not> success (gregorianToHebrew L d)))"
proof -
  have residue: "1 \<le> js_rem year 1000 \<and> js_rem year 1000 \<le> 999 \<longrightarrow>
      formatHebrewYear year = toHebrewNumeral (js_rem year 1000) \<and>
      (\<exists>str. formatHebrewYear year = Inr str)"
    using toHebrewNumeral_returns [of "js_rem year 1000"]
    by (simp add: formatHebrewYear_def Let_def)
  have placed: "\<not> success (gregorianToHebrew L d)"
    if "0 < year" "year mod 1000 = 0" "newHDate L d = Inr h" "getFullYear h = year" for L d h
    using gregorianToHebrew_millennial [of L d h] that by simp
  have millennial: "0 < year \<and> year mod 1000 = 0 \<longrightarrow>
      formatHebrewYear year = Inl (out_of_range 0) \<and>
      (\<forall>L day month. \<not> success (hebrewToGregorian L day month year)) \<and>
      (\<forall>L d h. newHDate L d = Inr h \<and> getFullYear h = year \<longrightarrow>
         \<not> success (gregorianToHebrew L d))"
  proof (intro impI conjI allI)
    assume a: "0 < year \<and> year mod 1000 = 0"
    show "formatHebrewYear year = Inl (out_of_range 0)"
      using a formatHebrewYear_millennial by simp
    show "\<not> success (hebrewToGregorian L day month year)" for L day month
      using a hebrewToGregorian_millennial by simp
    show "\<not> success (gregorianToHebrew L d)"
      if "newHDate L d = Inr h \<and> getFullYear h = year" for L d h
      using a that placed by simp
  qed
  have rem: "0 \<le> year \<longrightarrow> js_rem year 1000 = year mod 1000"
    using js_rem_nonneg by simp
  have below: "year mod 1000 \<le> 999"
    using pos_mod_bound [of 1000 year] by simp
  have residue': "0 \<le> year \<and> 1 \<le> year mod 1000 \<longrightarrow>
      formatHebrewYear year = toHebrewNumeral (year mod 1000) \<and>
      (\<exists>str. formatHebrewYear year = Inr str)"
  proof
    assume a: "0 \<le> year \<and> 1 \<le> year mod 1000"
    then have same: "js_rem year 1000 = year mod 1000" using rem by simp
    have eq: "formatHebrewYear year = toHebrewNumeral (year mod 1000)"
      by (simp add: formatHebrewYear_def Let_def same)
    obtain str where "toHebrewNumeral (year mod 1000) = Inr str"
      using toHebrewNumeral_returns [of "year mod 1000"] a below by blast
    then show "formatHebrewYear year = toHebrewNumeral (year mod 1000) \<and>
      (\<exists>str. formatHebrewYear year = Inr str)"
      using eq by simp
  qed
  show ?thesis
    using residue rem residue' millennial by (intro conjI)
qed

theorem formatHebrewYear_residue_witness:
  "js_rem 5784 1000 = 784 \<and> (5784::int) mod 1000 = 784 \<and>
   formatHebrewYear 5784 = toHebrewNumeral 784 \<and>
   formatHebrewYear 5784 = Inr [TAV, SHIN, GERESH, PE, GERSHAYIM, DALET, GERESH] \<and>
   (0::int) < 6000 \<and> (6000::int) mod 1000 = 0 \<and>
   formatHebrewYear 6000 = Inl (out_of_range 0) \<and>
   \<not> success (hebrewToGregorian testLibrary 1 1 6000) \<and>
   newHDate testLibrary roshHashanah6000
     = Inr \<lparr>getDate = 1, getMonth = 1, getFullYear = 6000\<rparr> \<and>
   \<not> success (gregorianToHebrew testLibrary roshHashanah6000)"
proof -
  have lib: "newHDate testLibrary roshHashanah6000
     = Inr \<lparr>getDate = 1, getMonth = 1, getFullYear = 6000\<rparr>"
    by (simp add: testLibrary_def roshHashanah6000_def makeDate_def ascii_def)
  have low: "formatHebrewYear 5784 = toHebrewNumeral 784"
    using formatHebrewYear_residue [of 5784] js_rem_5784 by simp
  have high: "formatHebrewYear 6000 = Inl (out_of_range 0) \<and>
      \<not> success (hebrewToGregorian testLibrary 1 1 6000) \<and>
      \<not> success (gregorianToHebrew testLibrary roshHashanah6000)"
    using formatHebrewYear_residue [of 6000] lib by simp
  show ?thesis
    using low high lib js_rem_5784 toHebrewNumeral_784 by simp
qed

end
